theory Spec2Isabelle
  imports Complex_Main
begin

section \<open>Values shared by the models\<close>

text \<open>
  A wp.array is identified by a reference; an attribute of a State, Control or Model object
  either holds a wp.array or something else (a number, \<open>None\<close>, ...).
\<close>

type_synonym aref = nat

datatype attr = WpArray aref | NonArray

text \<open>
  Python exceptions that the modelled functions can raise.  \<open>KeyError\<close> carries the
  key that was looked up in \<open>tape.gradients\<close>, \<open>AttributeError\<close> the attribute name.
\<close>

datatype exn =
    ValueError
  | TypeError
  | ZeroDivisionError
  | KeyError attr
  | AttributeError string
  | AssertionError
  | IndexError
  | ExternalError string

section \<open>Materials (warp-mpm-sga/sim/materials.py)\<close>

definition MATL_PLASTICINE :: int where
  "MATL_PLASTICINE = 0"

definition MATL_WATER :: int where
  "MATL_WATER = 1"

text \<open>
  The struct \<open>MPMMaterial\<close>.  The decorator \<open>wp.struct\<close> makes \<open>MPMMaterial()\<close> build
  every scalar field by calling its annotated type, so a fresh instance holds \<open>0\<close> in
  \<open>name\<close> and \<open>0.0\<close> in each float field; the \<open>= None\<close> written in the class body is not
  used.  A float field reads as \<open>None\<close> only after \<open>None\<close> has been assigned to it, so the
  float fields are options.  Floats are modelled as reals: rounding is not part of the
  model.
\<close>

record MPMMaterial =
  name :: int
  E :: "real option"
  nu :: "real option"
  yield_stress :: "real option"
  mu :: "real option"
  lam :: "real option"

definition MPMMaterial_init :: MPMMaterial where
  "MPMMaterial_init =
     \<lparr>name = 0, E = Some 0, nu = Some 0, yield_stress = Some 0, mu = Some 0, lam = Some 0\<rparr>"

text \<open>Python's true division of floats: a zero divisor raises.\<close>

definition py_truediv :: "real \<Rightarrow> real \<Rightarrow> exn + real" where
  "py_truediv a b = (if b = 0 then Inl ZeroDivisionError else Inr (a / b))"

text \<open>
  \<open>get_lame\<close>: arithmetic on \<open>None\<close> raises TypeError.  In \<open>E / (2.0 * (1.0 + nu))\<close>
  the divisor is evaluated first, so a missing \<open>nu\<close> is met before the division, and a
  missing \<open>E\<close> makes the division itself a TypeError whatever the divisor.
\<close>

definition get_lame :: "real option \<Rightarrow> real option \<Rightarrow> exn + (real \<times> real)" where
  "get_lame E_arg nu_arg =
     (case nu_arg of
        None \<Rightarrow> Inl TypeError
      | Some v \<Rightarrow>
          (case E_arg of
             None \<Rightarrow> Inl TypeError
           | Some e \<Rightarrow>
               (case py_truediv e (2 * (1 + v)) of
                  Inl err \<Rightarrow> Inl err
                | Inr m \<Rightarrow>
                    (case py_truediv (e * v) ((1 + v) * (1 - 2 * v)) of
                       Inl err \<Rightarrow> Inl err
                     | Inr l \<Rightarrow> Inr (m, l)))))"

definition get_material ::
  "string \<Rightarrow> real option \<Rightarrow> real option \<Rightarrow> real option \<Rightarrow> exn + MPMMaterial" where
  "get_material nm E_arg nu_arg ys_arg =
     (let material = MPMMaterial_init in
      if nm = ''plasticine'' then
        (let material = material\<lparr>name := MATL_PLASTICINE, E := E_arg, nu := nu_arg,
                                  yield_stress := ys_arg\<rparr>
         in case get_lame E_arg nu_arg of
              Inl err \<Rightarrow> Inl err
            | Inr (m, l) \<Rightarrow> Inr (material\<lparr>mu := Some m, lam := Some l\<rparr>))
      else if nm = ''water'' then
        (let material = material\<lparr>name := MATL_WATER, E := E_arg, nu := nu_arg\<rparr>
         in case get_lame E_arg nu_arg of
              Inl err \<Rightarrow> Inl err
            | Inr (m, l) \<Rightarrow> Inr (material\<lparr>mu := Some m, lam := Some l\<rparr>))
      else Inl ValueError)"

section \<open>Adjoint post-processing (autograd.py, backward)\<close>

text \<open>
  A float32 entry of a tensor: a finite value or one of the three non-finite values.
\<close>

datatype fl = Fin real | PosInf | NegInf | NaN

type_synonym tensor = "fl list"

text \<open>\<open>torch.nan_to_num(x, nan, posinf, neginf)\<close>, entrywise.\<close>

fun nan_to_num1 :: "real \<Rightarrow> real \<Rightarrow> real \<Rightarrow> fl \<Rightarrow> fl" where
  "nan_to_num1 n p m (Fin v) = Fin v"
| "nan_to_num1 n p m PosInf = Fin p"
| "nan_to_num1 n p m NegInf = Fin m"
| "nan_to_num1 n p m NaN = Fin n"

definition nan_to_num :: "tensor \<Rightarrow> real \<Rightarrow> real \<Rightarrow> real \<Rightarrow> tensor" where
  "nan_to_num t n p m = map (nan_to_num1 n p m) t"

text \<open>
  \<open>torch.clamp(x, lo, hi)\<close>, entrywise: \<open>min(max(x, lo), hi)\<close>; NaN stays NaN and the
  infinities are clamped to the bounds.
\<close>

fun clamp1 :: "real \<Rightarrow> real \<Rightarrow> fl \<Rightarrow> fl" where
  "clamp1 lo hi (Fin v) = Fin (min (max v lo) hi)"
| "clamp1 lo hi PosInf = Fin hi"
| "clamp1 lo hi NegInf = Fin (min lo hi)"
| "clamp1 lo hi NaN = NaN"

definition clamp :: "tensor \<Rightarrow> real \<Rightarrow> real \<Rightarrow> tensor" where
  "clamp t lo hi = map (clamp1 lo hi) t"

text \<open>
  The three policy variables that \<open>backward\<close> sets at its top.  The source binds them to
  \<open>None\<close>, \<open>None\<close> and \<open>False\<close>; the alternative bindings are in its comments.
  The in-place division \<open>adj_tensor /= rescale_grad\<close> is float division by an integer
  and is a parameter \<open>fdiv\<close> of the model.
\<close>

record grad_policy =
  rescale_grad :: "int option"
  clip_grad :: "real option"
  zero_nans :: bool

definition default_policy :: grad_policy where
  "default_policy = \<lparr>rescale_grad = None, clip_grad = None, zero_nans = False\<rparr>"

text \<open>Lines 242--246 (and their two copies): what is done to each cloned adjoint.\<close>

definition process_adj :: "(fl \<Rightarrow> int \<Rightarrow> fl) \<Rightarrow> grad_policy \<Rightarrow> tensor \<Rightarrow> tensor" where
  "process_adj fdiv pol t =
     (let t1 = (case rescale_grad pol of None \<Rightarrow> t | Some r \<Rightarrow> map (\<lambda>x. fdiv x r) t)
      in case clip_grad pol of
           None \<Rightarrow> t1
         | Some c \<Rightarrow> clamp (nan_to_num t1 0 (- c) c) (- c) c)"

text \<open>Lines 287--288: \<open>torch.nan_to_num_(adj_input, 0.0, 0.0, 0.0)\<close> on every adjoint.\<close>

definition finish_adj :: "grad_policy \<Rightarrow> tensor list \<Rightarrow> tensor list" where
  "finish_adj pol ts = (if zero_nans pol then map (\<lambda>t. nan_to_num t 0 0 0) ts else ts)"

section \<open>Device state, tape and integrator (what autograd.py acts on)\<close>

text \<open>
  A torch tensor is either a zero-copy view of a wp.array (\<open>wp.to_torch(a)\<close>) or owns its
  data (a clone, or a tensor made by the caller).
\<close>

datatype torch_tensor = View aref | Owned tensor

text \<open>
  \<open>vars(x)\<close> of a State or Control object: its attribute names, in order, with what they
  hold.  The model object also has its list \<open>shape_geo_src\<close>; a \<open>wp.sim.Mesh\<close> entry is
  given by the array \<open>geo.mesh.points\<close>.
\<close>

type_synonym obj = "(string \<times> attr) list"

datatype geo = Mesh aref | OtherGeo

record model_obj =
  m_vars :: obj
  shape_geo_src :: "geo list"

text \<open>
  What is issued between \<open>wp.capture_begin\<close> and \<open>wp.capture_end\<close> is one of two calls.
  The graph object returned by \<open>wp.capture_end()\<close> is modelled by the call it recorded
  and whether that call returned normally.
\<close>

datatype op = SimUpdate | TapeBackward

datatype graph = Graph op bool

datatype event =
    EvSync
  | EvCaptureBegin
  | EvCaptureEnd graph
  | EvRun op
  | EvLaunch graph
  | EvAssign aref
  | EvTapeZero nat
  | EvPrint string

text \<open>
  The device state: the contents of every wp.array, the \<open>.grad\<close> array of each array
  (\<open>None\<close> when it has none), and for every tape its dictionary \<open>tape.gradients\<close>
  (array to adjoint array, in insertion order).  The world adds the two graph attributes
  of the integrator and the log of what was issued.
\<close>

record device =
  arrays :: "aref \<Rightarrow> tensor"
  grad_of :: "aref \<Rightarrow> aref option"
  tapes :: "nat \<Rightarrow> (aref \<times> aref) list"
  next_tape :: nat

record world =
  dev :: device
  update_graph :: "graph option"
  bwd_update_graph :: "graph option"
  trace :: "event list"

record update_params =
  tape :: "nat option"
  model :: model_obj
  use_graph_capture :: bool
  synchronize :: bool

record sim_params =
  sim_substeps :: int
  sim_dt :: real
  kinematic_fk :: bool
  eval_ik :: bool

type_synonym states = "obj \<times> obj list \<times> obj"

text \<open>
  The calls that leave this file: \<open>sim_update\<close> (warp-utils), \<open>tape.backward()\<close> and
  \<open>wp.capture_launch\<close> (Warp), and the float division of torch.  They act on the device
  state only; \<open>sim_update\<close> and \<open>tape.backward\<close> may raise, and are told whether a
  capture is open.
\<close>

record ext =
  sim_update :: "update_params \<Rightarrow> sim_params \<Rightarrow> states \<Rightarrow> obj \<Rightarrow> bool \<Rightarrow> device
                 \<Rightarrow> exn option \<times> device"
  tape_backward :: "nat \<Rightarrow> bool \<Rightarrow> device \<Rightarrow> exn option \<times> device"
  capture_launch :: "graph \<Rightarrow> device \<Rightarrow> device"
  fdiv :: "fl \<Rightarrow> int \<Rightarrow> fl"

type_synonym 'a res = "(exn \<times> world) + ('a \<times> world)"

type_synonym step = "(exn \<times> world) + world"

definition andthen :: "step \<Rightarrow> (world \<Rightarrow> (exn \<times> world) + 'a) \<Rightarrow> (exn \<times> world) + 'a" where
  "andthen r f = (case r of Inl e \<Rightarrow> Inl e | Inr w \<Rightarrow> f w)"

definition emit :: "event \<Rightarrow> world \<Rightarrow> world" where
  "emit ev w = w\<lparr>trace := trace w @ [ev]\<rparr>"

definition set_dev :: "device \<Rightarrow> world \<Rightarrow> world" where
  "set_dev d w = w\<lparr>dev := d\<rparr>"

text \<open>\<open>wp.synchronize_device()\<close> under \<open>if synchronize\<close>.\<close>

definition sync_if :: "bool \<Rightarrow> world \<Rightarrow> world" where
  "sync_if b w = (if b then emit EvSync w else w)"

text \<open>The data a torch tensor holds, read through the view if it is one.\<close>

definition tdata :: "world \<Rightarrow> torch_tensor \<Rightarrow> tensor" where
  "tdata w t = (case t of View a \<Rightarrow> arrays (dev w) a | Owned xs \<Rightarrow> xs)"

definition clone :: "world \<Rightarrow> torch_tensor \<Rightarrow> torch_tensor" where
  "clone w t = Owned (tdata w t)"

text \<open>\<open>dst.assign(src)\<close>: a copy of data into the array \<open>dst\<close>.\<close>

definition wp_assign :: "aref \<Rightarrow> tensor \<Rightarrow> world \<Rightarrow> world" where
  "wp_assign dst xs w =
     emit (EvAssign dst) (set_dev ((dev w)\<lparr>arrays := (arrays (dev w))(dst := xs)\<rparr>) w)"

definition getattr :: "obj \<Rightarrow> string \<Rightarrow> exn + attr" where
  "getattr x nm = (case map_of x nm of None \<Rightarrow> Inl (AttributeError nm) | Some a \<Rightarrow> Inr a)"

text \<open>\<open>getattr(x_out, name).assign(data)\<close>.\<close>

definition assign_attr :: "obj \<Rightarrow> string \<Rightarrow> tensor \<Rightarrow> world \<Rightarrow> step" where
  "assign_attr x_out nm xs w =
     (case getattr x_out nm of
        Inl e \<Rightarrow> Inl (e, w)
      | Inr NonArray \<Rightarrow> Inl (AttributeError ''assign'', w)
      | Inr (WpArray dst) \<Rightarrow> Inr (wp_assign dst xs w))"

section \<open>assign-tensors and assign-adjoints (autograd.py, lines 12--34)\<close>

text \<open>First loop of \<open>assign_tensors\<close>: every wp.array attribute of \<open>x\<close> not in \<open>names\<close>.\<close>

fun assign_unnamed :: "obj \<Rightarrow> obj \<Rightarrow> string list \<Rightarrow> string list \<Rightarrow> world \<Rightarrow> step" where
  "assign_unnamed x x_out names [] w = Inr w"
| "assign_unnamed x x_out names (nm # rest) w =
     (if nm \<in> set names then assign_unnamed x x_out names rest w
      else case getattr x nm of
             Inl e \<Rightarrow> Inl (e, w)
           | Inr NonArray \<Rightarrow> assign_unnamed x x_out names rest w
           | Inr (WpArray src) \<Rightarrow>
               andthen (assign_attr x_out nm (arrays (dev w) src) w)
                       (assign_unnamed x x_out names rest))"

text \<open>Second loop: \<open>for name, tensor in zip(names, tensors)\<close>.\<close>

fun assign_named :: "obj \<Rightarrow> (string \<times> torch_tensor) list \<Rightarrow> world \<Rightarrow> step" where
  "assign_named x_out [] w = Inr w"
| "assign_named x_out ((nm, t) # rest) w =
     andthen (assign_attr x_out nm (tdata w t) w) (assign_named x_out rest)"

definition assign_tensors ::
  "obj \<Rightarrow> obj \<Rightarrow> string list \<Rightarrow> torch_tensor list \<Rightarrow> world \<Rightarrow> step" where
  "assign_tensors x x_out names ts w =
     andthen (assign_unnamed x x_out names (map fst x) w)
             (assign_named x_out (zip names ts))"

text \<open>\<open>wp_array.grad.assign(...)\<close>: the array must have a gradient array.\<close>

definition assign_grad :: "attr \<Rightarrow> tensor \<Rightarrow> world \<Rightarrow> step" where
  "assign_grad a xs w =
     (case a of
        NonArray \<Rightarrow> Inl (AttributeError ''grad'', w)
      | WpArray arr \<Rightarrow>
          (case grad_of (dev w) arr of
             None \<Rightarrow> Inl (AttributeError ''assign'', w)
           | Some g \<Rightarrow> Inr (wp_assign g xs w)))"

fun assign_adjoints :: "obj \<Rightarrow> (string \<times> torch_tensor) list \<Rightarrow> world \<Rightarrow> step" where
  "assign_adjoints x [] w = Inr w"
| "assign_adjoints x ((nm, t) # rest) w =
     (case getattr x nm of
        Inl e \<Rightarrow> Inl (e, w)
      | Inr a \<Rightarrow> andthen (assign_grad a (tdata w t) w) (assign_adjoints x rest))"

section \<open>UpdateFunction.forward (autograd.py, lines 40--152)\<close>

text \<open>
  The arguments of \<open>forward\<close> after \<open>ctx\<close>.  The integrator of \<open>update_params\<close> is the one
  whose graph attributes the world holds.  In eager mode the caller passes \<open>None\<close>s for
  \<open>states_bwd\<close> and \<open>control_bwd\<close>, which that mode never reads.
\<close>

record fwd_args =
  update_params :: update_params
  sim_params :: sim_params
  states :: states
  control :: obj
  states_bwd :: states
  control_bwd :: obj
  state_tensors_names :: "string list"
  model_tensors_names :: "string list"
  control_tensors_names :: "string list"
  tensors :: "torch_tensor list"

text \<open>What \<open>forward\<close> stores in \<open>ctx\<close>: its arguments and the four slices of the tensors.\<close>

record ctx = fwd_args +
  state_tensors :: "torch_tensor list"
  model_tensors :: "torch_tensor list"
  control_tensors :: "torch_tensor list"
  mesh_tensors :: "torch_tensor list"

text \<open>Python's \<open>xs[i:j]\<close> and \<open>xs[i:]\<close> for indices that are not negative.\<close>

definition slice :: "nat \<Rightarrow> nat \<Rightarrow> 'a list \<Rightarrow> 'a list" where
  "slice i j xs = take (j - i) (drop i xs)"

definition slice_from :: "nat \<Rightarrow> 'a list \<Rightarrow> 'a list" where
  "slice_from i xs = drop i xs"

text \<open>\<open>tape = wp.Tape()\<close>: a new tape with an empty \<open>gradients\<close> dictionary.\<close>

definition new_tape :: "world \<Rightarrow> nat \<times> world" where
  "new_tape w =
     (let d = dev w; t = next_tape d
      in (t, set_dev (d\<lparr>tapes := (tapes d)(t := []), next_tape := Suc t\<rparr>) w))"

definition run_sim_update ::
  "ext \<Rightarrow> update_params \<Rightarrow> sim_params \<Rightarrow> states \<Rightarrow> obj \<Rightarrow> bool \<Rightarrow> world
   \<Rightarrow> exn option \<times> world" where
  "run_sim_update X up sp sts ctl capturing w =
     (let (r, d) = sim_update X up sp sts ctl capturing (dev w)
      in (r, set_dev d (emit (EvRun SimUpdate) w)))"

definition run_tape_backward :: "ext \<Rightarrow> nat \<Rightarrow> bool \<Rightarrow> world \<Rightarrow> exn option \<times> world" where
  "run_tape_backward X t capturing w =
     (let (r, d) = tape_backward X t capturing (dev w)
      in (r, set_dev d (emit (EvRun TapeBackward) w)))"

text \<open>
  Lines 98--111.  Each \<open>finally\<close> clause stores what \<open>wp.capture_end()\<close> returns on the
  integrator, whether or not the body raised; the exception then goes on to the caller.
\<close>

definition capture_graphs ::
  "ext \<Rightarrow> update_params \<Rightarrow> sim_params \<Rightarrow> states \<Rightarrow> obj \<Rightarrow> nat \<Rightarrow> world \<Rightarrow> step" where
  "capture_graphs X up sp sts_bwd ctl_bwd t w =
     (let (r1, w1) = run_sim_update X up sp sts_bwd ctl_bwd True (emit EvCaptureBegin w);
          g1 = Graph SimUpdate (r1 = None);
          w2 = emit (EvCaptureEnd g1) (w1\<lparr>update_graph := Some g1\<rparr>)
      in case r1 of
           Some e \<Rightarrow> Inl (e, w2)
         | None \<Rightarrow>
             (let (r2, w3) = run_tape_backward X t True (emit EvCaptureBegin w2);
                  g2 = Graph TapeBackward (r2 = None);
                  w4 = emit (EvCaptureEnd g2) (w3\<lparr>bwd_update_graph := Some g2\<rparr>)
              in case r2 of
                   Some e \<Rightarrow> Inl (e, w4)
                 | None \<Rightarrow> Inr w4))"

text \<open>Lines 118--122: the mesh tensors, by position, into the points of each mesh.\<close>

fun assign_meshes :: "geo list \<Rightarrow> torch_tensor list \<Rightarrow> nat \<Rightarrow> world \<Rightarrow> step" where
  "assign_meshes [] ms idx w = Inr w"
| "assign_meshes (OtherGeo # gs) ms idx w = assign_meshes gs ms idx w"
| "assign_meshes (Mesh pts # gs) ms idx w =
     (if idx < length ms
      then assign_meshes gs ms (Suc idx) (wp_assign pts (tdata w (ms ! idx)) w)
      else Inl (IndexError, w))"

text \<open>\<open>wp.capture_launch(g)\<close>; with \<open>None\<close> in place of a graph Warp fails on \<open>g.device\<close>.\<close>

definition launch :: "ext \<Rightarrow> graph option \<Rightarrow> world \<Rightarrow> step" where
  "launch X go w =
     (case go of
        None \<Rightarrow> Inl (AttributeError ''device'', w)
      | Some g \<Rightarrow> Inr (set_dev (capture_launch X g (dev w)) (emit (EvLaunch g) w)))"

text \<open>
  Lines 113--122, which \<open>backward\<close> repeats as its lines 200--209: copy the inputs into
  the buffers the graph was captured on.
\<close>

definition push_inputs :: "ctx \<Rightarrow> world \<Rightarrow> step" where
  "push_inputs cx w =
     (let (state_in, states_mid, state_out) = states cx;
          (state_in_bwd, states_mid_bwd, state_out_bwd) = states_bwd cx;
          mdl = model (update_params cx)
      in andthen (assign_tensors state_in state_in_bwd (state_tensors_names cx)
                    (state_tensors cx) w)
        (\<lambda>w1. andthen (assign_tensors (control cx) (control_bwd cx)
                         (control_tensors_names cx) (control_tensors cx) w1)
        (\<lambda>w2. andthen (assign_named (m_vars mdl)
                         (zip (model_tensors_names cx) (model_tensors cx)) w2)
        (\<lambda>w3. assign_meshes (shape_geo_src mdl) (mesh_tensors cx) 0 w3))))"

text \<open>Lines 113--123 and 200--210: the inputs are copied in and the forward graph replayed.\<close>

definition replay_forward :: "ext \<Rightarrow> ctx \<Rightarrow> world \<Rightarrow> step" where
  "replay_forward X cx w =
     andthen (push_inputs cx w) (\<lambda>w4. launch X (update_graph w4) w4)"

text \<open>
  A loop \<open>for name in names: outputs.append(f(name))\<close>; when \<open>f\<close> raises, the loop
  variable \<open>name\<close> is left bound to the name at which it did.
\<close>

fun collect :: "(string \<Rightarrow> exn + 'a) \<Rightarrow> string list \<Rightarrow> (string \<times> exn) + 'a list" where
  "collect f [] = Inr []"
| "collect f (nm # rest) =
     (case f nm of
        Inl e \<Rightarrow> Inl (nm, e)
      | Inr v \<Rightarrow> (case collect f rest of Inl ne \<Rightarrow> Inl ne | Inr vs \<Rightarrow> Inr (v # vs)))"

definition to_torch :: "attr \<Rightarrow> exn + torch_tensor" where
  "to_torch a = (case a of WpArray arr \<Rightarrow> Inr (View arr)
                 | NonArray \<Rightarrow> Inl (ExternalError ''to_torch''))"

text \<open>Lines 135--138: \<open>wp.to_torch(getattr(x, name))\<close>, cloned in graph-capture mode.\<close>

definition output_tensor :: "bool \<Rightarrow> world \<Rightarrow> obj \<Rightarrow> string \<Rightarrow> exn + torch_tensor" where
  "output_tensor gc w x nm =
     (case getattr x nm of
        Inl e \<Rightarrow> Inl e
      | Inr a \<Rightarrow> (case to_torch a of
                   Inl e \<Rightarrow> Inl e
                 | Inr t \<Rightarrow> Inr (if gc then clone w t else t)))"

text \<open>Lines 133--152.\<close>

definition forward_outputs :: "ctx \<Rightarrow> world \<Rightarrow> exn + torch_tensor list" where
  "forward_outputs cx w =
     (let (state_in, states_mid, state_out) = states cx;
          up = update_params cx;
          gc = use_graph_capture up
      in case collect (output_tensor gc w state_out) (state_tensors_names cx) of
           Inl (nm, e) \<Rightarrow> Inl e
         | Inr os \<Rightarrow>
        (case collect (output_tensor gc w (m_vars (model up))) (model_tensors_names cx) of
           Inl (nm, e) \<Rightarrow> Inl e
         | Inr om \<Rightarrow>
        (case collect (output_tensor gc w (control cx)) (control_tensors_names cx) of
           Inl (nm, e) \<Rightarrow> Inl e
         | Inr oc \<Rightarrow> Inr (os @ om @ oc @ map (clone w) (mesh_tensors cx)))))"

text \<open>Lines 59--88: the slices of \<open>*tensors\<close>, the tape, and the context.\<close>

definition make_ctx :: "fwd_args \<Rightarrow> nat \<Rightarrow> ctx" where
  "make_ctx a t =
     (let num_state = length (state_tensors_names a);
          num_model = length (model_tensors_names a);
          num_control = length (control_tensors_names a);
          ts = tensors a
      in fwd_args.extend (a\<lparr>update_params := (update_params a)\<lparr>tape := Some t\<rparr>\<rparr>)
           (ctx.fields
              (slice 0 num_state ts)
              (slice num_state (num_state + num_model) ts)
              (slice (num_state + num_model) (num_state + num_model + num_control) ts)
              (slice_from (num_state + num_model + num_control) ts)))"

text \<open>
  Lines 91--111: when the integrator has no forward graph yet, the source asserts that it
  has no backward graph either and captures both.
\<close>

definition ensure_captured :: "ext \<Rightarrow> ctx \<Rightarrow> nat \<Rightarrow> world \<Rightarrow> step" where
  "ensure_captured X cx t w =
     (if update_graph w = None then
        (if bwd_update_graph w \<noteq> None then Inl (AssertionError, w)
         else capture_graphs X (update_params cx) (sim_params cx) (states_bwd cx)
                (control_bwd cx) t w)
      else Inr w)"

text \<open>Lines 90--127: the step itself, replayed in graph-capture mode and run otherwise.\<close>

definition forward_run :: "ext \<Rightarrow> ctx \<Rightarrow> nat \<Rightarrow> world \<Rightarrow> step" where
  "forward_run X cx t w =
     (let up = update_params cx;
          (state_in, states_mid, state_out) = states cx;
          (state_in_bwd, states_mid_bwd, state_out_bwd) = states_bwd cx
      in if use_graph_capture up then
           andthen (ensure_captured X cx t w)
             (\<lambda>w3. andthen (replay_forward X cx w3)
                     (assign_tensors state_out_bwd state_out [] []))
         else
           (case run_sim_update X up (sim_params cx) (states cx) (control cx) False w of
              (None, w3) \<Rightarrow> Inr w3
            | (Some e, w3) \<Rightarrow> Inl (e, w3)))"

text \<open>
  Lines 67--73: the synchronisation before the step, and the tape, a new one when the
  caller gave none.
\<close>

definition forward_start :: "fwd_args \<Rightarrow> world \<Rightarrow> nat \<times> world" where
  "forward_start a w0 =
     (let w1 = sync_if (synchronize (update_params a)) w0
      in case tape (update_params a) of
           None \<Rightarrow> new_tape w1
         | Some t \<Rightarrow> (t, w1))"

definition forward :: "ext \<Rightarrow> fwd_args \<Rightarrow> world \<Rightarrow> (torch_tensor list \<times> ctx) res" where
  "forward X a w0 =
     (let (t, w2) = forward_start a w0;
          cx = make_ctx a t
      in andthen (forward_run X cx t w2)
           (\<lambda>w4. let w5 = sync_if (synchronize (update_params cx)) w4
                 in case forward_outputs cx w5 of
                      Inl e \<Rightarrow> Inl (e, w5)
                    | Inr outs \<Rightarrow> Inr ((outs, cx), w5)))"

section \<open>UpdateFunction.backward (autograd.py, lines 154--302)\<close>

text \<open>Lines 215--219: the mesh adjoints, by position, into the gradient of the points.\<close>

fun assign_mesh_grads :: "geo list \<Rightarrow> torch_tensor list \<Rightarrow> nat \<Rightarrow> world \<Rightarrow> step" where
  "assign_mesh_grads [] ms idx w = Inr w"
| "assign_mesh_grads (OtherGeo # gs) ms idx w = assign_mesh_grads gs ms idx w"
| "assign_mesh_grads (Mesh pts # gs) ms idx w =
     (if idx < length ms
      then andthen (assign_grad (WpArray pts) (tdata w (ms ! idx)) w)
                   (assign_mesh_grads gs ms (Suc idx))
      else Inl (IndexError, w))"

text \<open>\<open>assert len(tape.gradients) > 0\<close>.\<close>

definition assert_gradients :: "nat \<Rightarrow> world \<Rightarrow> step" where
  "assert_gradients t w =
     (if length (tapes (dev w) t) > 0 then Inr w else Inl (AssertionError, w))"

text \<open>
  Lines 212--219: the adjoints of the outputs are copied into the gradient arrays of the
  captured output state, of the model, of the captured control and of the mesh points.
\<close>

definition push_adjoints ::
  "ctx \<Rightarrow> torch_tensor list \<Rightarrow> torch_tensor list \<Rightarrow> torch_tensor list \<Rightarrow> torch_tensor list
   \<Rightarrow> world \<Rightarrow> step" where
  "push_adjoints cx adj_state_tensors adj_model_tensors adj_control_tensors adj_mesh_tensors w =
     (let (state_in_bwd, states_mid_bwd, state_out_bwd) = states_bwd cx;
          mdl = model (update_params cx)
      in andthen (assign_adjoints state_out_bwd
                    (zip (state_tensors_names cx) adj_state_tensors) w)
        (\<lambda>w3. andthen (assign_adjoints (m_vars mdl)
                         (zip (model_tensors_names cx) adj_model_tensors) w3)
        (\<lambda>w4. andthen (assign_adjoints (control_bwd cx)
                         (zip (control_tensors_names cx) adj_control_tensors) w4)
        (\<lambda>w5. assign_mesh_grads (shape_geo_src mdl) adj_mesh_tensors 0 w5))))"

text \<open>Lines 223--225, the eager branch: only the state and control adjoints are assigned.\<close>

definition eager_backward ::
  "ext \<Rightarrow> ctx \<Rightarrow> nat \<Rightarrow> torch_tensor list \<Rightarrow> torch_tensor list \<Rightarrow> world \<Rightarrow> step" where
  "eager_backward X cx t adj_state_tensors adj_control_tensors w =
     (let (state_in, states_mid, state_out) = states cx
      in andthen (assign_adjoints state_out
                    (zip (state_tensors_names cx) adj_state_tensors) w)
        (\<lambda>w2. andthen (assign_adjoints (control cx)
                         (zip (control_tensors_names cx) adj_control_tensors) w2)
        (\<lambda>w3. case run_tape_backward X t False w3 of
                (None, w4) \<Rightarrow> Inr w4
              | (Some e, w4) \<Rightarrow> Inl (e, w4))))"

text \<open>
  Lines 186--225 without the assertion of line 221: the slices of the adjoints, and then
  either the replay of the step and of the reverse pass (graph-capture mode) or the reverse
  pass itself (eager mode).
\<close>

definition reverse_pass :: "ext \<Rightarrow> ctx \<Rightarrow> nat \<Rightarrow> torch_tensor list \<Rightarrow> world \<Rightarrow> step" where
  "reverse_pass X cx t adj_tensors w1 =
     (let up = update_params cx;
          num_state = length (state_tensors_names cx);
          num_model = length (model_tensors_names cx);
          num_control = length (control_tensors_names cx);
          adj_state_tensors = slice 0 num_state adj_tensors;
          adj_model_tensors = slice num_state (num_state + num_model) adj_tensors;
          adj_control_tensors =
            slice (num_state + num_model) (num_state + num_model + num_control) adj_tensors;
          adj_mesh_tensors = slice_from (num_state + num_model + num_control) adj_tensors
      in if use_graph_capture up then
           andthen (replay_forward X cx w1)
           (\<lambda>w2. andthen (push_adjoints cx adj_state_tensors adj_model_tensors
                            adj_control_tensors adj_mesh_tensors w2)
           (\<lambda>w6. launch X (bwd_update_graph w6) w6))
         else eager_backward X cx t adj_state_tensors adj_control_tensors w1)"

text \<open>
  Lines 184--233: everything before the \<open>try\<close>.  The context always holds a tape, since
  \<open>forward\<close> made one when it was given none.  In graph-capture mode the reverse pass is
  followed by the assertion that \<open>tape.gradients\<close> is not empty.
\<close>

definition backward_pass :: "ext \<Rightarrow> ctx \<Rightarrow> torch_tensor list \<Rightarrow> world \<Rightarrow> step" where
  "backward_pass X cx adj_tensors w0 =
     (let up = update_params cx;
          w1 = sync_if (synchronize up) w0
      in case tape up of
           None \<Rightarrow> Inl (AttributeError ''gradients'', w1)
         | Some t \<Rightarrow>
             andthen (reverse_pass X cx t adj_tensors w1)
             (\<lambda>w6. andthen (if use_graph_capture up then assert_gradients t w6 else Inr w6)
             (\<lambda>w7. Inr (sync_if (synchronize up) w7))))"

text \<open>\<open>tape.gradients[key]\<close>: a key the dictionary does not hold raises KeyError.\<close>

definition grad_lookup :: "world \<Rightarrow> nat \<Rightarrow> attr \<Rightarrow> exn + aref" where
  "grad_lookup w t key =
     (case key of
        NonArray \<Rightarrow> Inl (KeyError NonArray)
      | WpArray a \<Rightarrow>
          (case map_of (tapes (dev w) t) a of
             None \<Rightarrow> Inl (KeyError (WpArray a))
           | Some g \<Rightarrow> Inr g))"

text \<open>The body of each of the three loops at lines 237--273.\<close>

definition read_adj ::
  "ext \<Rightarrow> grad_policy \<Rightarrow> world \<Rightarrow> nat \<Rightarrow> obj \<Rightarrow> string \<Rightarrow> exn + tensor" where
  "read_adj X pol w t x nm =
     (case getattr x nm of
        Inl e \<Rightarrow> Inl e
      | Inr key \<Rightarrow>
          (case grad_lookup w t key of
             Inl e \<Rightarrow> Inl e
           | Inr g \<Rightarrow> Inr (process_adj (fdiv X) pol (arrays (dev w) g))))"

text \<open>Lines 275--278: a clone of the gradient of each mesh's points.\<close>

fun mesh_adjs :: "world \<Rightarrow> geo list \<Rightarrow> exn + tensor list" where
  "mesh_adjs w [] = Inr []"
| "mesh_adjs w (OtherGeo # gs) = mesh_adjs w gs"
| "mesh_adjs w (Mesh pts # gs) =
     (case grad_of (dev w) pts of
        None \<Rightarrow> Inl (ExternalError ''to_torch'')
      | Some g \<Rightarrow> (case mesh_adjs w gs of
                    Inl e \<Rightarrow> Inl e
                  | Inr vs \<Rightarrow> Inr (arrays (dev w) g # vs)))"

text \<open>
  Lines 280--282: \<open>except KeyError\<close> prints the name the loop variable holds and raises the
  exception again; any other exception passes through untouched.
\<close>

definition on_error :: "world \<Rightarrow> string \<times> exn \<Rightarrow> exn \<times> world" where
  "on_error w ne =
     (case ne of
        (nm, KeyError k) \<Rightarrow> (KeyError k, emit (EvPrint (''Missing gradient for '' @ nm)) w)
      | (nm, e) \<Rightarrow> (e, w))"

text \<open>Lines 227--229 and 235--282: the \<open>try\<close> block, reading from the world as it stands.\<close>

definition read_adjoints :: "ext \<Rightarrow> grad_policy \<Rightarrow> ctx \<Rightarrow> nat \<Rightarrow> world \<Rightarrow> tensor list res" where
  "read_adjoints X pol cx t w =
     (let up = update_params cx;
          (state_in0, states_mid, state_out0) = states cx;
          (state_in_bwd, states_mid_bwd, state_out_bwd) = states_bwd cx;
          state_in = (if use_graph_capture up then state_in_bwd else state_in0);
          ctl = (if use_graph_capture up then control_bwd cx else control cx);
          mdl = model up
      in case collect (read_adj X pol w t state_in) (state_tensors_names cx) of
           Inl ne \<Rightarrow> Inl (on_error w ne)
         | Inr a_state \<Rightarrow>
        (case collect (read_adj X pol w t (m_vars mdl)) (model_tensors_names cx) of
           Inl ne \<Rightarrow> Inl (on_error w ne)
         | Inr a_model \<Rightarrow>
        (case collect (read_adj X pol w t ctl) (control_tensors_names cx) of
           Inl ne \<Rightarrow> Inl (on_error w ne)
         | Inr a_control \<Rightarrow>
        (case mesh_adjs w (shape_geo_src mdl) of
           Inl e \<Rightarrow> Inl (e, w)
         | Inr a_mesh \<Rightarrow> Inr (a_state @ a_model @ a_control @ a_mesh, w)))))"

text \<open>\<open>tape.zero()\<close>: every adjoint array of \<open>tape.gradients\<close> is set to zeros.\<close>

definition zero_array :: "aref \<Rightarrow> device \<Rightarrow> device" where
  "zero_array g d = d\<lparr>arrays := (arrays d)(g := map (\<lambda>x. Fin 0) (arrays d g))\<rparr>"

definition tape_zero :: "nat \<Rightarrow> world \<Rightarrow> world" where
  "tape_zero t w =
     set_dev (fold (\<lambda>ag. zero_array (snd ag)) (tapes (dev w) t) (dev w)) (emit (EvTapeZero t) w)"

text \<open>
  The whole of \<open>backward\<close>, with the three policy variables as a parameter.  The value
  returned has \<open>None\<close> for each of the nine arguments of \<open>forward\<close> that are not tensors.
\<close>

definition backward_with ::
  "ext \<Rightarrow> grad_policy \<Rightarrow> ctx \<Rightarrow> torch_tensor list \<Rightarrow> world \<Rightarrow> torch_tensor option list res" where
  "backward_with X pol cx adj_tensors w0 =
     andthen (backward_pass X cx adj_tensors w0)
       (\<lambda>w1. case tape (update_params cx) of
               None \<Rightarrow> Inl (AttributeError ''gradients'', w1)
             | Some t \<Rightarrow>
                 (case read_adjoints X pol cx t w1 of
                    Inl ew \<Rightarrow> Inl ew
                  | Inr (adj_inputs, w2) \<Rightarrow>
                      (let w3 = tape_zero t w2;
                           adj_inputs' = finish_adj pol adj_inputs
                       in Inr (replicate 9 None @ map (\<lambda>xs. Some (Owned xs)) adj_inputs', w3))))"

text \<open>\<open>backward\<close> as the source has it: the policy variables bound as at lines 176--178.\<close>

definition backward ::
  "ext \<Rightarrow> ctx \<Rightarrow> torch_tensor list \<Rightarrow> world \<Rightarrow> torch_tensor option list res" where
  "backward X cx adj_tensors w0 = backward_with X default_policy cx adj_tensors w0"

section \<open>Sequences of calls and what the log shows\<close>

datatype call = Forward fwd_args | Backward ctx "torch_tensor list"

text \<open>The world a call leaves behind, whether it returned or raised.\<close>

definition world_after :: "'a res \<Rightarrow> world" where
  "world_after r = (case r of Inl (e, w) \<Rightarrow> w | Inr (v, w) \<Rightarrow> w)"

fun run_calls :: "ext \<Rightarrow> call list \<Rightarrow> world \<Rightarrow> world" where
  "run_calls X [] w = w"
| "run_calls X (Forward a # cs) w = run_calls X cs (world_after (forward X a w))"
| "run_calls X (Backward cx adj # cs) w = run_calls X cs (world_after (backward X cx adj w))"

text \<open>
  The events of a log that concern graphs: opening and closing a capture, a direct call of
  the physics update or of the reverse pass, and the replay of a graph.
\<close>

fun is_graph_event :: "event \<Rightarrow> bool" where
  "is_graph_event EvCaptureBegin = True"
| "is_graph_event (EvCaptureEnd g) = True"
| "is_graph_event (EvRun c) = True"
| "is_graph_event (EvLaunch g) = True"
| "is_graph_event ev = False"

definition graph_events :: "event list \<Rightarrow> event list" where
  "graph_events tr = filter is_graph_event tr"

text \<open>
  The part of a log that shows captures: each \<open>wp.capture_begin\<close> and each
  \<open>wp.capture_end\<close> with the graph it returned.
\<close>

fun is_capture_event :: "event \<Rightarrow> bool" where
  "is_capture_event EvCaptureBegin = True"
| "is_capture_event (EvCaptureEnd g) = True"
| "is_capture_event ev = False"

definition capture_log :: "event list \<Rightarrow> event list" where
  "capture_log tr = filter is_capture_event tr"

text \<open>The graph events of capturing the forward graph and of capturing the backward graph.\<close>

definition fwd_capture_events :: "bool \<Rightarrow> event list" where
  "fwd_capture_events ok = [EvCaptureBegin, EvRun SimUpdate, EvCaptureEnd (Graph SimUpdate ok)]"

definition bwd_capture_events :: "bool \<Rightarrow> event list" where
  "bwd_capture_events ok =
     [EvCaptureBegin, EvRun TapeBackward, EvCaptureEnd (Graph TapeBackward ok)]"

text \<open>
  What the capture part of a log may gain over an integrator's life if capture happens at
  most once: nothing, or the capture of a forward graph that failed, or the capture of a
  forward graph followed by that of a backward graph.
\<close>

definition one_capture :: "event list \<Rightarrow> bool" where
  "one_capture c \<longleftrightarrow>
     c = []
     \<or> c = [EvCaptureBegin, EvCaptureEnd (Graph SimUpdate False)]
     \<or> c = [EvCaptureBegin, EvCaptureEnd (Graph SimUpdate True),
            EvCaptureBegin, EvCaptureEnd (Graph TapeBackward False)]
     \<or> c = [EvCaptureBegin, EvCaptureEnd (Graph SimUpdate True),
            EvCaptureBegin, EvCaptureEnd (Graph TapeBackward True)]"

section \<open>WarpEnv.do-physics-step (warp-env.py, lines 400--464)\<close>

text \<open>
  State and Control objects are identified by references here; \<open>model.state()\<close> and
  \<open>model.control()\<close> make a new object each time.
\<close>

record env =
  state_0 :: nat
  state_1 :: nat
  e_states_mid :: "nat list"
  control_0 :: nat
  no_grad :: bool
  e_use_graph_capture :: bool
  e_tape :: "nat option"
  e_sim_substeps :: nat
  e_state_tensors_names :: "string list"
  e_control_tensors_names :: "string list"
  e_state_tensors :: "torch_tensor list"
  e_control_tensors :: "torch_tensor list"
  next_ref :: nat

definition requires_grad :: "env \<Rightarrow> bool" where
  "requires_grad e = (\<not> no_grad e)"

definition model_state :: "env \<Rightarrow> nat \<times> env" where
  "model_state e = (next_ref e, e\<lparr>next_ref := Suc (next_ref e)\<rparr>)"

fun model_states :: "nat \<Rightarrow> env \<Rightarrow> nat list \<times> env" where
  "model_states 0 e = ([], e)"
| "model_states (Suc n) e =
     (let (r, e1) = model_state e; (rs, e2) = model_states n e1 in (r # rs, e2))"

text \<open>
  A positional argument of a Python call, as far as the binding of \<open>forward\<close>'s parameters
  can tell them apart: a list of names, a tensor, or one of the six leading arguments.
\<close>

datatype pyval = PyNames "string list" | PyTensor torch_tensor | PyOther

text \<open>
  The signature of \<open>forward\<close> after \<open>ctx\<close> has nine positional parameters and then
  \<open>*tensors\<close>.  Fewer than nine arguments is a TypeError; otherwise the seventh, eighth
  and ninth are bound to \<open>state_tensors_names\<close>, \<open>model_tensors_names\<close> and
  \<open>control_tensors_names\<close>, and the rest to \<open>tensors\<close>.
\<close>

definition forward_bind :: "pyval list \<Rightarrow> exn + (pyval \<times> pyval \<times> pyval \<times> pyval list)" where
  "forward_bind args =
     (if length args < 9 then Inl TypeError
      else Inr (args ! 6, args ! 7, args ! 8, drop 9 args))"

text \<open>What one call of the update function was given.\<close>

record step_call =
  sc_state_in :: nat
  sc_states_mid :: "nat list"
  sc_state_out :: nat
  sc_control :: nat
  sc_bound :: "pyval \<times> pyval \<times> pyval \<times> pyval list"

text \<open>
  What \<open>do_physics_step\<close> calls and this file does not hold: the run of the update function
  once its parameters are bound, \<open>wp.to_torch(getattr(control, k))\<close>, and
  \<open>Environment.update\<close>.
\<close>

record host =
  apply_update :: "step_call \<Rightarrow> exn + torch_tensor list"
  control_tensor :: "nat \<Rightarrow> string \<Rightarrow> torch_tensor"
  super_update :: "env \<Rightarrow> env"

definition do_physics_step :: "host \<Rightarrow> env \<Rightarrow> exn + (env \<times> step_call option)" where
  "do_physics_step H e =
     (if requires_grad e \<or> e_use_graph_capture e then
        (let (st1, e1) = (if requires_grad e then model_state e else (state_1 e, e));
             (mid, e2) = (if e_use_graph_capture e1 then (e_states_mid e1, e1)
                          else model_states (e_sim_substeps e1 - 1) e1)
         in if e_use_graph_capture e \<and> e_tape e = None then Inl AssertionError
            else
              (let args =
                     (if requires_grad e then
                        replicate 6 PyOther
                        @ [PyNames (e_state_tensors_names e2), PyNames (e_control_tensors_names e2)]
                        @ map PyTensor (e_state_tensors e2 @ e_control_tensors e2)
                      else replicate 6 PyOther @ [PyNames [], PyNames []])
               in case forward_bind args of
                    Inl err \<Rightarrow> Inl err
                  | Inr bound \<Rightarrow>
                      (let c = \<lparr>sc_state_in = state_0 e2, sc_states_mid = mid,
                                sc_state_out = st1, sc_control = control_0 e2,
                                sc_bound = bound\<rparr>
                       in case apply_update H c of
                            Inl err \<Rightarrow> Inl err
                          | Inr outs \<Rightarrow>
                              (let outputs = (if requires_grad e then outs else []);
                                   num_state = length (e_state_tensors_names e2);
                                   e3 = e2\<lparr>e_state_tensors := slice 0 num_state outputs,
                                           state_1 := state_0 e2,
                                           state_0 := st1\<rparr>;
                                   (c0, e4) = model_state e3;
                                   e5 = e4\<lparr>control_0 := c0,
                                           e_control_tensors :=
                                             map (control_tensor H c0)
                                                 (e_control_tensors_names e4)\<rparr>
                               in Inr (e5, Some c)))))
      else Inr (super_update H e, None))"

text \<open>
  Consecutive steps of one environment; for each step, the call it made (if it made one).
\<close>

fun physics_steps :: "host \<Rightarrow> nat \<Rightarrow> env \<Rightarrow> exn + (env \<times> step_call option list)" where
  "physics_steps H 0 e = Inr (e, [])"
| "physics_steps H (Suc n) e =
     (case do_physics_step H e of
        Inl err \<Rightarrow> Inl err
      | Inr (e1, c) \<Rightarrow>
          (case physics_steps H n e1 of
             Inl err \<Rightarrow> Inl err
           | Inr (e2, cs) \<Rightarrow> Inr (e2, c # cs)))"

section \<open>Concrete inputs\<close>

text \<open>
  An environment with gradients, in eager mode, with one state tensor, and a host whose
  update function returns one tensor.
\<close>

definition demo_host :: host where
  "demo_host = \<lparr>apply_update = (\<lambda>c. Inr [Owned [Fin 1]]),
                 control_tensor = (\<lambda>c k. View c),
                 super_update = (\<lambda>e. e)\<rparr>"

definition demo_env :: env where
  "demo_env = \<lparr>state_0 = 0, state_1 = 1, e_states_mid = [], control_0 = 2, no_grad = False,
                e_use_graph_capture = False, e_tape = None, e_sim_substeps = 2,
                e_state_tensors_names = [''particle_q''], e_control_tensors_names = [],
                e_state_tensors = [View 7], e_control_tensors = [], next_ref = 3\<rparr>"

definition demo_env3 :: env where
  "demo_env3 = \<lparr>state_0 = 9, state_1 = 6, e_states_mid = [], control_0 = 11,
                 no_grad = False, e_use_graph_capture = False, e_tape = None,
                 e_sim_substeps = 2, e_state_tensors_names = [''particle_q''],
                 e_control_tensors_names = [], e_state_tensors = [Owned [Fin 1]],
                 e_control_tensors = [], next_ref = 12\<rparr>"

definition demo_calls :: "step_call option list" where
  "demo_calls =
     [Some \<lparr>sc_state_in = 0, sc_states_mid = [4], sc_state_out = 3, sc_control = 2,
            sc_bound = (PyNames [''particle_q''], PyNames [], PyTensor (View 7), [])\<rparr>,
      Some \<lparr>sc_state_in = 3, sc_states_mid = [7], sc_state_out = 6, sc_control = 5,
            sc_bound = (PyNames [''particle_q''], PyNames [], PyTensor (Owned [Fin 1]), [])\<rparr>,
      Some \<lparr>sc_state_in = 6, sc_states_mid = [10], sc_state_out = 9, sc_control = 8,
            sc_bound = (PyNames [''particle_q''], PyNames [], PyTensor (Owned [Fin 1]), [])\<rparr>]"

section \<open>What the tape holds for a declared input\<close>

text \<open>
  The declared inputs of a call, in the order \<open>backward\<close> reads them: the state names on
  the input state (the captured one in graph-capture mode), the model names on the model,
  the control names on the control.
\<close>

definition read_state_in :: "ctx \<Rightarrow> obj" where
  "read_state_in cx =
     (if use_graph_capture (update_params cx) then fst (states_bwd cx) else fst (states cx))"

definition read_control :: "ctx \<Rightarrow> obj" where
  "read_control cx =
     (if use_graph_capture (update_params cx) then control_bwd cx else control cx)"


text \<open>
  The adjoint that tape \<open>t\<close> has accumulated for the buffer \<open>nm\<close> of \<open>x\<close>: the contents of
  the array \<open>tape.gradients\<close> maps the buffer to, and \<open>None\<close> when that dictionary has no
  entry for it.
\<close>

definition tape_gradient :: "world \<Rightarrow> nat \<Rightarrow> obj \<Rightarrow> string \<Rightarrow> tensor option" where
  "tape_gradient w t x nm =
     (case getattr x nm of
        Inr (WpArray a) \<Rightarrow> map_option (arrays (dev w)) (map_of (tapes (dev w) t) a)
      | _ \<Rightarrow> None)"

fun mesh_points :: "geo list \<Rightarrow> aref list" where
  "mesh_points [] = []"
| "mesh_points (Mesh pts # gs) = pts # mesh_points gs"
| "mesh_points (OtherGeo # gs) = mesh_points gs"

definition mesh_gradient :: "world \<Rightarrow> aref \<Rightarrow> tensor option" where
  "mesh_gradient w pts = map_option (arrays (dev w)) (grad_of (dev w) pts)"


text \<open>
  A physics update that registers the adjoint arrays of four buffers on the tape and raises
  \<open>r\<close> if that is an exception; a reverse pass and a replay that leave the device as it is.
\<close>

definition demo_ext :: "exn option \<Rightarrow> ext" where
  "demo_ext r =
     \<lparr>sim_update = (\<lambda>up sp sts ctl capturing d.
                      (r, case tape up of
                            None \<Rightarrow> d
                          | Some t \<Rightarrow> d\<lparr>tapes := (tapes d)
                                         (t := [(1, 101), (3, 103), (11, 111), (13, 113)])\<rparr>)),
      tape_backward = (\<lambda>t capturing d. (None, d)),
      capture_launch = (\<lambda>g d. d),
      fdiv = (\<lambda>x r. x)\<rparr>"

text \<open>
  A world in which array \<open>a\<close> holds the one entry \<open>a\<close> and has the gradient array
  \<open>a + 100\<close>, with no graph on the integrator and nothing logged.
\<close>

definition demo_world :: world where
  "demo_world =
     \<lparr>dev = \<lparr>arrays = (\<lambda>a. [Fin (real a)]), grad_of = (\<lambda>a. Some (a + 100)),
             tapes = (\<lambda>t. []), next_tape = 0\<rparr>,
      update_graph = None, bwd_update_graph = None, trace = []\<rparr>"

definition demo_model :: model_obj where
  "demo_model = \<lparr>m_vars = [(''k'', WpArray 4)], shape_geo_src = [Mesh 5]\<rparr>"

text \<open>
  Arguments of \<open>forward\<close>: one state name \<open>q\<close>, one control name \<open>act\<close>, the model names
  and the tensors as given.
\<close>

definition demo_args ::
  "bool \<Rightarrow> nat option \<Rightarrow> string list \<Rightarrow> torch_tensor list \<Rightarrow> fwd_args" where
  "demo_args gc tp mnames ts =
     \<lparr>update_params = \<lparr>tape = tp, model = demo_model, use_graph_capture = gc,
                        synchronize = False\<rparr>,
      sim_params = \<lparr>sim_substeps = 2, sim_dt = 1, kinematic_fk = False, eval_ik = False\<rparr>,
      states = ([(''q'', WpArray 1)], [], [(''q'', WpArray 2)]),
      control = [(''act'', WpArray 3)],
      states_bwd = ([(''q'', WpArray 11)], [], [(''q'', WpArray 12)]),
      control_bwd = [(''act'', WpArray 13)],
      state_tensors_names = [''q''],
      model_tensors_names = mnames,
      control_tensors_names = [''act''],
      tensors = ts\<rparr>"

definition demo_tensors :: "torch_tensor list" where
  "demo_tensors = [Owned [Fin 7], Owned [Fin 8], Owned [Fin 9]]"


definition demo_tensors4 :: "torch_tensor list" where
  "demo_tensors4 = [Owned [Fin 7], Owned [Fin 6], Owned [Fin 8], Owned [Fin 9]]"

text \<open>The world a step leaves behind, whether it completed or raised.\<close>

definition step_world :: "step \<Rightarrow> world" where
  "step_world r = (case r of Inl (e, w) \<Rightarrow> w | Inr w \<Rightarrow> w)"


text \<open>
  The eager call of \<open>forward\<close> on the concrete inputs with no model names, the context it
  stores and the world it leaves; the same with the model name \<open>k\<close>, for which the demo
  physics registers no gradient.
\<close>

definition demo_ctx :: "string list \<Rightarrow> torch_tensor list \<Rightarrow> ctx" where
  "demo_ctx mnames ts = make_ctx (demo_args False None mnames ts) 0"

definition demo_fwd_world :: "string list \<Rightarrow> torch_tensor list \<Rightarrow> world" where
  "demo_fwd_world mnames ts =
     world_after (forward (demo_ext None) (demo_args False None mnames ts) demo_world)"

definition demo_adj :: "torch_tensor list" where
  "demo_adj = [Owned [Fin 1], Owned [Fin 2], Owned [Fin 3]]"

definition demo_adj4 :: "torch_tensor list" where
  "demo_adj4 = [Owned [Fin 1], Owned [Fin 4], Owned [Fin 2], Owned [Fin 3]]"

definition demo_pass_world :: "string list \<Rightarrow> torch_tensor list \<Rightarrow> torch_tensor list \<Rightarrow> world" where
  "demo_pass_world mnames ts adj =
     step_world (backward_pass (demo_ext None) (demo_ctx mnames ts) adj
                   (demo_fwd_world mnames ts))"

definition demo_bwd_world :: "string list \<Rightarrow> torch_tensor list \<Rightarrow> torch_tensor list \<Rightarrow> world" where
  "demo_bwd_world mnames ts adj =
     world_after (backward_with (demo_ext None) default_policy (demo_ctx mnames ts) adj
                    (demo_fwd_world mnames ts))"


section \<open>What a step does to the integrator's graphs\<close>

text \<open>
  \<open>graph_step w evs w'\<close>: going from \<open>w\<close> to \<open>w'\<close> leaves both graph attributes of the
  integrator as they were and adds exactly the graph events \<open>evs\<close> to the log.
\<close>

definition graph_step :: "world \<Rightarrow> event list \<Rightarrow> world \<Rightarrow> bool" where
  "graph_step w evs w' \<longleftrightarrow>
     update_graph w' = update_graph w \<and> bwd_update_graph w' = bwd_update_graph w
     \<and> graph_events (trace w') = graph_events (trace w) @ evs"


text \<open>
  \<open>no_capture w w'\<close>: going from \<open>w\<close> to \<open>w'\<close> leaves both graph attributes as they were
  and adds no capture to the log.
\<close>

definition no_capture :: "world \<Rightarrow> world \<Rightarrow> bool" where
  "no_capture w w' \<longleftrightarrow>
     update_graph w' = update_graph w \<and> bwd_update_graph w' = bwd_update_graph w
     \<and> capture_log (trace w') = capture_log (trace w)"


text \<open>
  The same inputs in graph-capture mode, with a persistent tape: the first call of
  \<open>forward\<close>, the world it leaves, the world a second call leaves, and the world a
  following \<open>backward\<close> leaves.
\<close>

definition demo_graph_args :: fwd_args where
  "demo_graph_args = demo_args True (Some 0) [] demo_tensors"

definition demo_graph_ctx :: ctx where
  "demo_graph_ctx = make_ctx demo_graph_args 0"

definition demo_graph_world :: world where
  "demo_graph_world = world_after (forward (demo_ext None) demo_graph_args demo_world)"

definition demo_graph_world2 :: world where
  "demo_graph_world2 = world_after (forward (demo_ext None) demo_graph_args demo_graph_world)"

definition demo_graph_bwd_world :: world where
  "demo_graph_bwd_world =
     world_after (backward (demo_ext None) demo_graph_ctx demo_adj demo_graph_world)"

text \<open>
  The same calls for a model without a mesh, so that no mesh tensor is involved: one state
  name \<open>q\<close>, one control name \<open>act\<close>, the model names and the tensors as given.
\<close>

definition demo_plain_args ::
  "bool \<Rightarrow> nat option \<Rightarrow> string list \<Rightarrow> torch_tensor list \<Rightarrow> fwd_args" where
  "demo_plain_args gc tp mnames ts =
     (demo_args gc tp mnames ts)
       \<lparr>update_params :=
          \<lparr>tape = tp, model = \<lparr>m_vars = [(''k'', WpArray 4)], shape_geo_src = []\<rparr>,
           use_graph_capture = gc, synchronize = False\<rparr>\<rparr>"

definition demo_plain_tensors :: "torch_tensor list" where
  "demo_plain_tensors = [Owned [Fin 7], Owned [Fin 8]]"

definition demo_plain_adj :: "torch_tensor list" where
  "demo_plain_adj = [Owned [Fin 1], Owned [Fin 2]]"

text \<open>
  In graph-capture mode with a persistent tape: the world a first call of \<open>forward\<close> leaves
  when the physics update raises during the first capture, the world the next call leaves,
  and the world a first call leaves when the reverse pass raises during the second capture.
\<close>

definition demo_plain_graph_args :: fwd_args where
  "demo_plain_graph_args = demo_plain_args True (Some 0) [] demo_plain_tensors"

definition demo_plain_graph_ctx :: ctx where
  "demo_plain_graph_ctx = make_ctx demo_plain_graph_args 0"

definition demo_taped_dev :: device where
  "demo_taped_dev =
     (dev demo_world)\<lparr>tapes := (tapes (dev demo_world))
                                 (0 := [(1, 101), (3, 103), (11, 111), (13, 113)])\<rparr>"

definition demo_sim_fails_world :: world where
  "demo_sim_fails_world =
     world_after (forward (demo_ext (Some (ExternalError ''cuda''))) demo_plain_graph_args
                    demo_world)"

definition demo_sim_fails_world2 :: world where
  "demo_sim_fails_world2 =
     world_after (forward (demo_ext (Some (ExternalError ''cuda''))) demo_plain_graph_args
                    demo_sim_fails_world)"

definition demo_reverse_fails_ext :: ext where
  "demo_reverse_fails_ext =
     (demo_ext None)\<lparr>tape_backward := (\<lambda>t capturing d. (Some (ExternalError ''cuda''), d))\<rparr>"

definition demo_reverse_fails_world :: world where
  "demo_reverse_fails_world =
     world_after (forward demo_reverse_fails_ext demo_plain_graph_args demo_world)"

text \<open>
  A physics update that records nothing on the tape, with a reverse pass and a replay that
  leave the device as it is; in graph-capture mode, the world the first call of \<open>forward\<close>
  leaves with it and the world the following call of \<open>backward\<close> leaves.
\<close>

definition demo_quiet_ext :: ext where
  "demo_quiet_ext =
     \<lparr>sim_update = (\<lambda>up sp sts ctl capturing d. (None, d)),
      tape_backward = (\<lambda>t capturing d. (None, d)),
      capture_launch = (\<lambda>g d. d),
      fdiv = (\<lambda>x r. x)\<rparr>"

definition demo_quiet_world :: world where
  "demo_quiet_world = world_after (forward demo_quiet_ext demo_plain_graph_args demo_world)"

definition demo_quiet_pass_world :: world where
  "demo_quiet_pass_world =
     step_world (reverse_pass demo_quiet_ext demo_plain_graph_ctx 0 demo_plain_adj
                   demo_quiet_world)"

text \<open>
  In eager mode, with the model name \<open>k\<close> declared: a physics update that records the
  three inputs on the tape and a reverse pass that leaves \<open>+inf\<close>, \<open>-inf\<close> and NaN in
  their gradients; the context and the world \<open>forward\<close> leaves, and the world the reverse
  pass of \<open>backward\<close> leaves.
\<close>

definition demo_overflow_ext :: ext where
  "demo_overflow_ext =
     \<lparr>sim_update = (\<lambda>up sp sts ctl capturing d.
                      (None, case tape up of
                               None \<Rightarrow> d
                             | Some t \<Rightarrow> d\<lparr>tapes := (tapes d)
                                            (t := [(1, 101), (4, 104), (3, 103)])\<rparr>)),
      tape_backward = (\<lambda>t capturing d.
                         (None, d\<lparr>arrays := (arrays d)
                                   (101 := [PosInf], 104 := [NegInf], 103 := [NaN])\<rparr>)),
      capture_launch = (\<lambda>g d. d),
      fdiv = (\<lambda>x r. x)\<rparr>"

definition demo_overflow_args :: fwd_args where
  "demo_overflow_args =
     demo_plain_args False None [''k''] [Owned [Fin 7], Owned [Fin 6], Owned [Fin 8]]"

definition demo_overflow_ctx :: ctx where
  "demo_overflow_ctx = make_ctx demo_overflow_args 0"

definition demo_overflow_world :: world where
  "demo_overflow_world = world_after (forward demo_overflow_ext demo_overflow_args demo_world)"

definition demo_overflow_adj :: "torch_tensor list" where
  "demo_overflow_adj = [Owned [Fin 1], Owned [Fin 4], Owned [Fin 2]]"

definition demo_overflow_pass_world :: world where
  "demo_overflow_pass_world =
     step_world (backward_pass demo_overflow_ext demo_overflow_ctx demo_overflow_adj
                   demo_overflow_world)"

definition demo_overflow_bwd_world :: world where
  "demo_overflow_bwd_world =
     world_after (backward demo_overflow_ext demo_overflow_ctx demo_overflow_adj
                    demo_overflow_world)"


section \<open>Properties of the materials\<close>

lemma get_lame_defined:
  assumes "1 + v \<noteq> 0" and "1 - 2 * v \<noteq> 0"
  shows "get_lame (Some e) (Some v) = Inr (e / (2 * (1 + v)), e * v / ((1 + v) * (1 - 2 * v)))"
  using assms by (simp add: get_lame_def py_truediv_def)

text \<open>
  Claim C10.  \<open>get_material\<close> raises ValueError for every material name other than
  \<open>plasticine\<close> and \<open>water\<close>, whatever the other arguments.  For \<open>plasticine\<close> it returns
  a material named \<open>MATL_PLASTICINE\<close> holding \<open>E\<close>, \<open>nu\<close>, \<open>yield_stress\<close> and the
  Lame parameters \<open>mu = E / (2 (1 + nu))\<close> and \<open>lam = E nu / ((1 + nu) (1 - 2 nu))\<close>; for
  \<open>water\<close> a material named \<open>MATL_WATER\<close> with the same \<open>E\<close>, \<open>nu\<close>, \<open>mu\<close> and
  \<open>lam\<close>, in which \<open>yield_stress\<close> is not assigned: it is still what the fresh struct held,
  which is \<open>0.0\<close>, even when a yield stress was passed.  The two formulas are meant where
  they are defined: \<open>E\<close> and \<open>nu\<close> given and neither divisor zero.
\<close>

theorem get_material_cases:
  "(nm \<noteq> ''plasticine'' \<and> nm \<noteq> ''water'' \<longrightarrow> get_material nm eo vo yo = Inl ValueError)
   \<and> (1 + v \<noteq> 0 \<and> 1 - 2 * v \<noteq> 0 \<longrightarrow>
        get_material ''plasticine'' (Some e) (Some v) yo =
          Inr \<lparr>name = MATL_PLASTICINE, E = Some e, nu = Some v, yield_stress = yo,
               mu = Some (e / (2 * (1 + v))),
               lam = Some (e * v / ((1 + v) * (1 - 2 * v)))\<rparr>
      \<and> get_material ''water'' (Some e) (Some v) yo =
          Inr \<lparr>name = MATL_WATER, E = Some e, nu = Some v,
               yield_stress = yield_stress MPMMaterial_init,
               mu = Some (e / (2 * (1 + v))),
               lam = Some (e * v / ((1 + v) * (1 - 2 * v)))\<rparr>
      \<and> yield_stress MPMMaterial_init = Some 0)"
proof -
  have other: "nm \<noteq> ''plasticine'' \<and> nm \<noteq> ''water'' \<longrightarrow> get_material nm eo vo yo = Inl ValueError"
    by (simp add: get_material_def)
  have known: "1 + v \<noteq> 0 \<and> 1 - 2 * v \<noteq> 0 \<longrightarrow>
        get_material ''plasticine'' (Some e) (Some v) yo =
          Inr \<lparr>name = MATL_PLASTICINE, E = Some e, nu = Some v, yield_stress = yo,
               mu = Some (e / (2 * (1 + v))),
               lam = Some (e * v / ((1 + v) * (1 - 2 * v)))\<rparr>
      \<and> get_material ''water'' (Some e) (Some v) yo =
          Inr \<lparr>name = MATL_WATER, E = Some e, nu = Some v,
               yield_stress = yield_stress MPMMaterial_init,
               mu = Some (e / (2 * (1 + v))),
               lam = Some (e * v / ((1 + v) * (1 - 2 * v)))\<rparr>
      \<and> yield_stress MPMMaterial_init = Some 0"
    by (simp add: get_material_def get_lame_defined MPMMaterial_init_def)
  from other known show ?thesis by blast
qed

theorem get_material_cases_witness:
  "get_material ''rubber'' (Some 100) (Some (1 / 4)) (Some 5) = Inl ValueError
   \<and> get_material ''plasticine'' (Some 100) (Some (1 / 4)) (Some 5) =
       Inr \<lparr>name = 0, E = Some 100, nu = Some (1 / 4), yield_stress = Some 5,
            mu = Some 40, lam = Some 40\<rparr>
   \<and> get_material ''water'' (Some 100) (Some (1 / 4)) (Some 5) =
       Inr \<lparr>name = 1, E = Some 100, nu = Some (1 / 4), yield_stress = Some 0,
            mu = Some 40, lam = Some 40\<rparr>"
  using get_material_cases [of "''rubber''" "Some 100" "Some (1 / 4)" "Some 5" "1 / 4" 100]
  by (simp add: MATL_PLASTICINE_def MATL_WATER_def)

lemma get_material_undefined:
  "get_material ''water'' None vo yo = Inl TypeError"
  "get_material ''plasticine'' eo None yo = Inl TypeError"
  "get_material ''plasticine'' (Some e) (Some (- 1)) yo = Inl ZeroDivisionError"
  "get_material ''water'' (Some e) (Some (1 / 2)) yo = Inl ZeroDivisionError"
  by (simp_all add: get_material_def get_lame_def py_truediv_def split: option.splits)

section \<open>Properties of the adjoint post-processing\<close>


lemma process_adj_clip:
  assumes "0 \<le> c"
  shows "process_adj f \<lparr>rescale_grad = None, clip_grad = Some c, zero_nans = z\<rparr> [PosInf, NegInf, NaN]
         = [Fin (- c), Fin c, Fin 0]"
  using assms by (simp add: process_adj_def nan_to_num_def clamp_def)


section \<open>Properties of the physics step\<close>

lemma model_states_env: "snd (model_states n e) = e\<lparr>next_ref := next_ref e + n\<rparr>"
  by (induction n arbitrary: e) (simp_all add: model_state_def Let_def split_beta)

text \<open>
  One step: the call reads the state \<open>state_0\<close> pointed at before the step, and afterwards
  \<open>state_0\<close> points at the very object the call wrote, \<open>state_1\<close> at the one it read.
\<close>

lemma do_physics_step_handoff:
  assumes "do_physics_step H e = Inr (e1, Some c)"
  shows "sc_state_in c = state_0 e \<and> state_0 e1 = sc_state_out c \<and> state_1 e1 = state_0 e"
  using assms
  by (auto simp add: do_physics_step_def Let_def split_beta model_state_def model_states_env
      split: if_splits sum.splits)

lemma physics_steps_first:
  assumes "physics_steps H n e = Inr (e', cs)" and "0 < length cs" and "cs ! 0 = Some c"
  shows "sc_state_in c = state_0 e"
proof (cases n)
  case 0
  with assms show ?thesis by simp
next
  case (Suc m)
  with assms have "do_physics_step H e = Inr (fst (projr (do_physics_step H e)), Some c)"
    by (auto split: sum.splits)
  then show ?thesis using do_physics_step_handoff by blast
qed

text \<open>
  Claim C5.  In every run of consecutive physics steps of one environment, the state object
  a step reads as \<open>state_in\<close> is the same object (the same reference) that the step before
  it wrote as \<open>state_out\<close>.  The steps meant are those that go through the update function
  and return, which is the branch lines 456--459 belong to.
\<close>

theorem state_handoff_by_reference:
  assumes "physics_steps H n e = Inr (e', cs)"
    and "Suc i < length cs"
    and "cs ! i = Some c1"
    and "cs ! Suc i = Some c2"
  shows "sc_state_in c2 = sc_state_out c1"
  using assms
proof (induction n arbitrary: e cs i)
  case 0
  then show ?case by simp
next
  case (Suc n)
  from Suc.prems(1) obtain e1 c cs' where
    step: "do_physics_step H e = Inr (e1, c)" and
    rest: "physics_steps H n e1 = Inr (e', cs')" and
    cs: "cs = c # cs'"
    by (auto split: sum.splits)
  show ?case
  proof (cases i)
    case 0
    with Suc.prems cs have c: "c = Some c1" and c2: "cs' ! 0 = Some c2" and len: "0 < length cs'"
      by simp_all
    from physics_steps_first [OF rest len c2] have "sc_state_in c2 = state_0 e1" .
    moreover from step c have "state_0 e1 = sc_state_out c1"
      using do_physics_step_handoff by blast
    ultimately show ?thesis by simp
  next
    case (Suc j)
    with Suc.prems cs have "Suc j < length cs'" "cs' ! j = Some c1" "cs' ! Suc j = Some c2"
      by simp_all
    with Suc.IH [OF rest] show ?thesis by blast
  qed
qed

lemma demo_steps: "physics_steps demo_host 3 demo_env = Inr (demo_env3, demo_calls)"
  by (simp add: demo_host_def demo_env_def demo_env3_def demo_calls_def do_physics_step_def
      requires_grad_def model_state_def forward_bind_def slice_def Let_def eval_nat_numeral)

theorem state_handoff_by_reference_witness:
  "physics_steps demo_host 3 demo_env = Inr (demo_env3, demo_calls)
   \<and> Suc 1 < length demo_calls
   \<and> demo_calls ! 1 =
       Some \<lparr>sc_state_in = 3, sc_states_mid = [7], sc_state_out = 6, sc_control = 5,
             sc_bound = (PyNames [''particle_q''], PyNames [], PyTensor (Owned [Fin 1]), [])\<rparr>
   \<and> demo_calls ! Suc 1 =
       Some \<lparr>sc_state_in = 6, sc_states_mid = [10], sc_state_out = 9, sc_control = 8,
             sc_bound = (PyNames [''particle_q''], PyNames [], PyTensor (Owned [Fin 1]), [])\<rparr>
   \<and> sc_state_in
        \<lparr>sc_state_in = 6, sc_states_mid = [10], sc_state_out = 9, sc_control = 8,
         sc_bound = (PyNames [''particle_q''], PyNames [], PyTensor (Owned [Fin 1]), [])\<rparr>
     = sc_state_out
        \<lparr>sc_state_in = 3, sc_states_mid = [7], sc_state_out = 6, sc_control = 5,
         sc_bound = (PyNames [''particle_q''], PyNames [], PyTensor (Owned [Fin 1]), [])\<rparr>"
  using state_handoff_by_reference [OF demo_steps, of 1]
  by (simp add: demo_steps demo_calls_def)

text \<open>
  The call at lines 443--453, made when gradients are off, passes eight arguments where
  \<open>forward\<close> has nine parameters, so that branch never gets past the call; and the call
  at lines 429--439 binds the control names to \<open>model_tensors_names\<close> and the first tensor
  to \<open>control_tensors_names\<close>.
\<close>

lemma no_grad_step_raises:
  assumes "no_grad e" and "e_use_graph_capture e"
  shows "do_physics_step H e = Inl TypeError \<or> do_physics_step H e = Inl AssertionError"
  using assms
  by (simp add: do_physics_step_def requires_grad_def forward_bind_def Let_def)

lemma grad_step_binding:
  assumes "do_physics_step H e = Inr (e', Some c)"
  shows "\<exists>t ts. e_state_tensors e @ e_control_tensors e = t # ts
           \<and> sc_bound c = (PyNames (e_state_tensors_names e),
                           PyNames (e_control_tensors_names e), PyTensor t, map PyTensor ts)"
  using assms
  by (cases "e_state_tensors e @ e_control_tensors e")
     (auto simp add: do_physics_step_def requires_grad_def forward_bind_def Let_def split_beta
        model_state_def model_states_env eval_nat_numeral
        split: if_splits sum.splits)


section \<open>Properties of forward and backward: what is returned\<close>

lemma collect_Inr:
  "collect f names = Inr vs \<Longrightarrow> list_all2 (\<lambda>nm v. f nm = Inr v) names vs"
  by (induction names arbitrary: vs) (auto split: sum.splits)

lemma collect_Inl:
  "collect f names = Inl (nm, e) \<Longrightarrow> nm \<in> set names \<and> f nm = Inl e"
  by (induction names) (auto split: sum.splits)

lemma backward_pass_tape:
  "backward_pass X cx adj w = Inr w1 \<Longrightarrow> \<exists>t. tape (update_params cx) = Some t"
  by (cases "tape (update_params cx)") (simp_all add: backward_pass_def Let_def split_beta)

lemma backward_with_split:
  assumes "backward_pass X cx adj w = Inr w1" and "tape (update_params cx) = Some t"
  shows "backward_with X pol cx adj w =
     (case read_adjoints X pol cx t w1 of
        Inl ew \<Rightarrow> Inl ew
      | Inr (adj_inputs, w2) \<Rightarrow>
          Inr (replicate 9 None @ map (\<lambda>xs. Some (Owned xs)) (finish_adj pol adj_inputs),
               tape_zero t w2))"
  using assms by (simp add: backward_with_def andthen_def Let_def split: sum.splits)

lemma backward_with_Inr:
  assumes "backward_with X pol cx adj w = Inr (res, w')"
  shows "\<exists>w1 t adjs w2. backward_pass X cx adj w = Inr w1 \<and> tape (update_params cx) = Some t
           \<and> read_adjoints X pol cx t w1 = Inr (adjs, w2)
           \<and> res = replicate 9 None @ map (\<lambda>xs. Some (Owned xs)) (finish_adj pol adjs)
           \<and> w' = tape_zero t w2"
  using assms
  by (auto simp add: backward_with_def andthen_def Let_def split: sum.splits option.splits)

lemma mesh_adjs_Inr:
  "mesh_adjs w gs = Inr vs \<Longrightarrow> list_all2 (\<lambda>pts v. mesh_gradient w pts = Some v) (mesh_points gs) vs"
  by (induction w gs arbitrary: vs rule: mesh_adjs.induct)
     (auto simp add: mesh_gradient_def split: option.splits sum.splits)

lemma mesh_adjs_Inl:
  "mesh_adjs w gs = Inl e \<Longrightarrow> e = ExternalError ''to_torch''"
  by (induction w gs rule: mesh_adjs.induct) (auto split: option.splits sum.splits)


lemma read_adj_Inr:
  assumes "read_adj X pol w t x nm = Inr v"
  shows "\<exists>g. tape_gradient w t x nm = Some g \<and> v = process_adj (fdiv X) pol g"
  using assms
  by (auto simp add: read_adj_def tape_gradient_def grad_lookup_def
      split: option.splits sum.splits attr.splits)

lemma read_adjoints_unfold:
  "read_adjoints X pol cx t w =
     (case collect (read_adj X pol w t (read_state_in cx)) (state_tensors_names cx) of
        Inl ne \<Rightarrow> Inl (on_error w ne)
      | Inr a_s \<Rightarrow>
     (case collect (read_adj X pol w t (m_vars (model (update_params cx))))
             (model_tensors_names cx) of
        Inl ne \<Rightarrow> Inl (on_error w ne)
      | Inr a_m \<Rightarrow>
     (case collect (read_adj X pol w t (read_control cx)) (control_tensors_names cx) of
        Inl ne \<Rightarrow> Inl (on_error w ne)
      | Inr a_c \<Rightarrow>
     (case mesh_adjs w (shape_geo_src (model (update_params cx))) of
        Inl e \<Rightarrow> Inl (e, w)
      | Inr a_g \<Rightarrow> Inr (a_s @ a_m @ a_c @ a_g, w)))))"
  unfolding read_adjoints_def read_state_in_def read_control_def Let_def split_beta
  by (rule refl)

lemma read_adjoints_Inr:
  assumes "read_adjoints X pol cx t w = Inr (adjs, w2)"
  shows "w2 = w \<and> (\<exists>a_s a_m a_c a_g. adjs = a_s @ a_m @ a_c @ a_g
     \<and> list_all2 (\<lambda>nm v. read_adj X pol w t (read_state_in cx) nm = Inr v)
         (state_tensors_names cx) a_s
     \<and> list_all2 (\<lambda>nm v. read_adj X pol w t (m_vars (model (update_params cx))) nm = Inr v)
         (model_tensors_names cx) a_m
     \<and> list_all2 (\<lambda>nm v. read_adj X pol w t (read_control cx) nm = Inr v)
         (control_tensors_names cx) a_c
     \<and> mesh_adjs w (shape_geo_src (model (update_params cx))) = Inr a_g)"
  using assms
  by ((auto simp add: read_adjoints_unfold split: sum.splits dest!: collect_Inr); blast)


lemma on_error_is_KeyError:
  assumes "on_error w ne = (KeyError k, w')"
  shows "\<exists>nm. w' = emit (EvPrint (''Missing gradient for '' @ nm)) w"
  using assms by (cases ne; cases "snd ne") (auto simp add: on_error_def)

lemma forward_Inr:
  assumes "forward X a w = Inr ((outs, cx), w')"
  shows "\<exists>t. cx = make_ctx a t \<and> forward_outputs cx w' = Inr outs"
  using assms
  by (auto simp add: forward_def Let_def split_beta andthen_def split: sum.splits)

lemma make_ctx_fields:
  "states (make_ctx a t) = states a"
  "control (make_ctx a t) = control a"
  "states_bwd (make_ctx a t) = states_bwd a"
  "control_bwd (make_ctx a t) = control_bwd a"
  "sim_params (make_ctx a t) = sim_params a"
  "state_tensors_names (make_ctx a t) = state_tensors_names a"
  "model_tensors_names (make_ctx a t) = model_tensors_names a"
  "control_tensors_names (make_ctx a t) = control_tensors_names a"
  "update_params (make_ctx a t) = (update_params a)\<lparr>tape := Some t\<rparr>"
  "mesh_tensors (make_ctx a t) =
     drop (length (state_tensors_names a) + length (model_tensors_names a)
           + length (control_tensors_names a)) (tensors a)"
  by (simp_all add: make_ctx_def Let_def fwd_args.defs ctx.defs slice_from_def)


lemma process_adj_default: "process_adj f default_policy v = v"
  by (simp add: process_adj_def default_policy_def)

lemma finish_adj_default: "finish_adj default_policy vs = vs"
  by (simp add: finish_adj_def default_policy_def)

lemma read_adj_default:
  "read_adj X default_policy w t x nm = Inr v \<Longrightarrow> tape_gradient w t x nm = Some v"
  by (auto dest!: read_adj_Inr simp add: process_adj_default)




text \<open>
  Claim C7.  With the policy variables as the source binds them (no rescaling, no clamp
  range, no zeroing of NaN), whenever \<open>backward\<close> returns, each adjoint it returns is a
  clone of exactly what the tape holds for that input after the reverse pass: the
  gradient array \<open>tape.gradients\<close> gives for each state, model and control name, and the
  \<open>.grad\<close> of the points for each mesh.
\<close>

theorem default_backward_returns_tape_gradients:
  assumes "backward X cx adj w = Inr (res, w')"
  shows "\<exists>w1 t a_s a_m a_c a_g.
      backward_pass X cx adj w = Inr w1 \<and> tape (update_params cx) = Some t
    \<and> res = replicate 9 None @ map (\<lambda>xs. Some (Owned xs)) (a_s @ a_m @ a_c @ a_g)
    \<and> list_all2 (\<lambda>nm v. tape_gradient w1 t (read_state_in cx) nm = Some v)
        (state_tensors_names cx) a_s
    \<and> list_all2 (\<lambda>nm v. tape_gradient w1 t (m_vars (model (update_params cx))) nm = Some v)
        (model_tensors_names cx) a_m
    \<and> list_all2 (\<lambda>nm v. tape_gradient w1 t (read_control cx) nm = Some v)
        (control_tensors_names cx) a_c
    \<and> list_all2 (\<lambda>pts v. mesh_gradient w1 pts = Some v)
        (mesh_points (shape_geo_src (model (update_params cx)))) a_g"
proof -
  from assms obtain w1 t adjs w2 where
    pass: "backward_pass X cx adj w = Inr w1" and tp: "tape (update_params cx) = Some t" and
    rd: "read_adjoints X default_policy cx t w1 = Inr (adjs, w2)" and
    res: "res = replicate 9 None @ map (\<lambda>xs. Some (Owned xs)) (finish_adj default_policy adjs)"
    unfolding backward_def by (blast dest: backward_with_Inr)
  from read_adjoints_Inr [OF rd] obtain a_s a_m a_c a_g where
    adjs: "adjs = a_s @ a_m @ a_c @ a_g" and
    s: "list_all2 (\<lambda>nm v. read_adj X default_policy w1 t (read_state_in cx) nm = Inr v)
         (state_tensors_names cx) a_s" and
    m: "list_all2 (\<lambda>nm v. read_adj X default_policy w1 t (m_vars (model (update_params cx))) nm
           = Inr v) (model_tensors_names cx) a_m" and
    c: "list_all2 (\<lambda>nm v. read_adj X default_policy w1 t (read_control cx) nm = Inr v)
         (control_tensors_names cx) a_c" and
    g: "mesh_adjs w1 (shape_geo_src (model (update_params cx))) = Inr a_g"
    by blast
  have s': "list_all2 (\<lambda>nm v. tape_gradient w1 t (read_state_in cx) nm = Some v)
        (state_tensors_names cx) a_s"
    using s by (rule list_all2_mono) (rule read_adj_default)
  have m': "list_all2 (\<lambda>nm v. tape_gradient w1 t (m_vars (model (update_params cx))) nm = Some v)
        (model_tensors_names cx) a_m"
    using m by (rule list_all2_mono) (rule read_adj_default)
  have c': "list_all2 (\<lambda>nm v. tape_gradient w1 t (read_control cx) nm = Some v)
        (control_tensors_names cx) a_c"
    using c by (rule list_all2_mono) (rule read_adj_default)
  from res adjs have "res = replicate 9 None @ map (\<lambda>xs. Some (Owned xs)) (a_s @ a_m @ a_c @ a_g)"
    by (simp add: finish_adj_default)
  with pass tp s' m' c' mesh_adjs_Inr [OF g] show ?thesis by blast
qed


text \<open>
  Claim C8.  Once the reverse pass has run: if \<open>backward\<close> then raises a KeyError, that
  is, a declared input's gradient is missing from the tape, the device state at the raise
  is exactly the one the reverse pass left (no array has been zeroed), and all that was
  added to the log is the printed message; if instead \<open>backward\<close> returns, the world it
  leaves is the one the reverse pass left with \<open>tape.zero()\<close> applied to it.  So the
  zeroing is on the success path only, after all adjoints have been read.
\<close>

theorem failed_read_keeps_tape:
  assumes pass: "backward_pass X cx adj w = Inr w1"
  shows "(backward_with X pol cx adj w = Inl (KeyError k, w') \<longrightarrow>
            dev w' = dev w1
          \<and> (\<exists>nm. trace w' = trace w1 @ [EvPrint (''Missing gradient for '' @ nm)]))
       \<and> (backward_with X pol cx adj w = Inr (res, w'') \<longrightarrow>
            (\<exists>t. tape (update_params cx) = Some t \<and> w'' = tape_zero t w1))"
proof -
  from backward_pass_tape [OF pass] obtain t where tp: "tape (update_params cx) = Some t"
    by blast
  have bw: "backward_with X pol cx adj w =
     (case read_adjoints X pol cx t w1 of
        Inl ew \<Rightarrow> Inl ew
      | Inr (adj_inputs, w2) \<Rightarrow>
          Inr (replicate 9 None @ map (\<lambda>xs. Some (Owned xs)) (finish_adj pol adj_inputs),
               tape_zero t w2))"
    by (rule backward_with_split [OF pass tp])
  have fail: "backward_with X pol cx adj w = Inl (KeyError k, w') \<longrightarrow>
            dev w' = dev w1
          \<and> (\<exists>nm. trace w' = trace w1 @ [EvPrint (''Missing gradient for '' @ nm)])"
  proof
    assume "backward_with X pol cx adj w = Inl (KeyError k, w')"
    with bw have rd: "read_adjoints X pol cx t w1 = Inl (KeyError k, w')"
      by (auto split: sum.splits)
    then have "\<exists>ne. on_error w1 ne = (KeyError k, w')"
      by (auto simp add: read_adjoints_unfold split: sum.splits dest: mesh_adjs_Inl)
    then obtain nm where "w' = emit (EvPrint (''Missing gradient for '' @ nm)) w1"
      by (blast dest: on_error_is_KeyError)
    then show "dev w' = dev w1
          \<and> (\<exists>nm. trace w' = trace w1 @ [EvPrint (''Missing gradient for '' @ nm)])"
      by (auto simp add: emit_def)
  qed
  have ok: "backward_with X pol cx adj w = Inr (res, w'') \<longrightarrow>
            (\<exists>t. tape (update_params cx) = Some t \<and> w'' = tape_zero t w1)"
  proof
    assume "backward_with X pol cx adj w = Inr (res, w'')"
    with bw obtain adjs w2 where "read_adjoints X pol cx t w1 = Inr (adjs, w2)"
      and "w'' = tape_zero t w2"
      by (auto split: sum.splits)
    with read_adjoints_Inr [of X pol cx t w1 adjs w2] tp
    show "\<exists>t. tape (update_params cx) = Some t \<and> w'' = tape_zero t w1" by simp
  qed
  from fail ok show ?thesis by blast
qed

lemma tape_zero_zeroes:
  assumes "(a, g) \<in> set (tapes (dev w) t)"
  shows "arrays (dev (tape_zero t w)) g = map (\<lambda>x. Fin 0) (arrays (dev w) g)"
proof -
  have gen: "\<And>d. arrays (fold (\<lambda>ag. zero_array (snd ag)) ags d) g =
      (if g \<in> snd ` set ags then map (\<lambda>x. Fin 0) (arrays d g) else arrays d g)" for ags
    by (induction ags) (auto simp add: zero_array_def)
  from assms have "g \<in> snd ` set (tapes (dev w) t)" by force
  then show ?thesis
    by (simp add: tape_zero_def set_dev_def emit_def gen)
qed

section \<open>The properties at concrete inputs\<close>

lemmas demo_defs = demo_ext_def demo_world_def demo_model_def demo_args_def demo_tensors_def
  demo_tensors4_def demo_ctx_def demo_fwd_world_def demo_adj_def demo_adj4_def
  demo_pass_world_def demo_bwd_world_def

lemmas world_defs = sync_if_def new_tape_def emit_def set_dev_def tdata_def clone_def
  wp_assign_def getattr_def assign_attr_def andthen_def world_after_def step_world_def
  slice_def slice_from_def Let_def

lemmas forward_defs = forward_def forward_start_def forward_run_def ensure_captured_def make_ctx_def run_sim_update_def run_tape_backward_def
  capture_graphs_def push_inputs_def replay_forward_def launch_def assign_tensors_def forward_outputs_def
  output_tensor_def to_torch_def fwd_args.defs ctx.defs

lemmas backward_defs = backward_def backward_with_def backward_pass_def reverse_pass_def push_adjoints_def eager_backward_def
  assign_grad_def
  assert_gradients_def read_adjoints_def read_adj_def grad_lookup_def on_error_def
  tape_zero_def zero_array_def finish_adj_def process_adj_def default_policy_def


lemma demo_pass_eager:
  "backward_pass (demo_ext None) (demo_ctx [] demo_tensors) demo_adj
       (demo_fwd_world [] demo_tensors) = Inr (demo_pass_world [] demo_tensors demo_adj)"
  by (simp add: demo_defs world_defs forward_defs backward_defs)

lemma demo_backward_with_eager:
  "backward_with (demo_ext None) default_policy (demo_ctx [] demo_tensors) demo_adj
       (demo_fwd_world [] demo_tensors) =
     Inr (replicate 9 None @ [Some (Owned [Fin 101]), Some (Owned [Fin 2]), Some (Owned [Fin 105])],
          demo_bwd_world [] demo_tensors demo_adj)"
  by (simp add: demo_defs world_defs forward_defs backward_defs)

lemma demo_backward_eager:
  "backward (demo_ext None) (demo_ctx [] demo_tensors) demo_adj (demo_fwd_world [] demo_tensors) =
     Inr (replicate 9 None @ [Some (Owned [Fin 101]), Some (Owned [Fin 2]), Some (Owned [Fin 105])],
          demo_bwd_world [] demo_tensors demo_adj)"
  by (simp add: backward_def demo_backward_with_eager)

lemma demo_pass_missing:
  "backward_pass (demo_ext None) (demo_ctx [''k''] demo_tensors4) demo_adj4
       (demo_fwd_world [''k''] demo_tensors4) = Inr (demo_pass_world [''k''] demo_tensors4 demo_adj4)"
  by (simp add: demo_defs world_defs forward_defs backward_defs)

lemma demo_backward_missing:
  "backward_with (demo_ext None) default_policy (demo_ctx [''k''] demo_tensors4) demo_adj4
       (demo_fwd_world [''k''] demo_tensors4) =
     Inl (KeyError (WpArray 4), demo_bwd_world [''k''] demo_tensors4 demo_adj4)"
  by (simp add: demo_defs world_defs forward_defs backward_defs)




theorem default_backward_returns_tape_gradients_witness:
  "backward (demo_ext None) (demo_ctx [] demo_tensors) demo_adj (demo_fwd_world [] demo_tensors) =
     Inr (replicate 9 None @ [Some (Owned [Fin 101]), Some (Owned [Fin 2]), Some (Owned [Fin 105])],
          demo_bwd_world [] demo_tensors demo_adj)
   \<and> (\<exists>w1 t a_s a_m a_c a_g.
      backward_pass (demo_ext None) (demo_ctx [] demo_tensors) demo_adj
          (demo_fwd_world [] demo_tensors) = Inr w1
    \<and> tape (update_params (demo_ctx [] demo_tensors)) = Some t
    \<and> replicate 9 None @ [Some (Owned [Fin 101]), Some (Owned [Fin 2]), Some (Owned [Fin 105])]
        = replicate 9 None @ map (\<lambda>xs. Some (Owned xs)) (a_s @ a_m @ a_c @ a_g)
    \<and> list_all2 (\<lambda>nm v. tape_gradient w1 t (read_state_in (demo_ctx [] demo_tensors)) nm = Some v)
        (state_tensors_names (demo_ctx [] demo_tensors)) a_s
    \<and> list_all2 (\<lambda>nm v. tape_gradient w1 t
                     (m_vars (model (update_params (demo_ctx [] demo_tensors)))) nm = Some v)
        (model_tensors_names (demo_ctx [] demo_tensors)) a_m
    \<and> list_all2 (\<lambda>nm v. tape_gradient w1 t (read_control (demo_ctx [] demo_tensors)) nm = Some v)
        (control_tensors_names (demo_ctx [] demo_tensors)) a_c
    \<and> list_all2 (\<lambda>pts v. mesh_gradient w1 pts = Some v)
        (mesh_points (shape_geo_src (model (update_params (demo_ctx [] demo_tensors))))) a_g)"
  by (rule conjI [OF demo_backward_eager
        default_backward_returns_tape_gradients [OF demo_backward_eager]])


theorem failed_read_keeps_tape_witness:
  "backward_pass (demo_ext None) (demo_ctx [''k''] demo_tensors4) demo_adj4
       (demo_fwd_world [''k''] demo_tensors4) = Inr (demo_pass_world [''k''] demo_tensors4 demo_adj4)
   \<and> backward_with (demo_ext None) default_policy (demo_ctx [''k''] demo_tensors4) demo_adj4
       (demo_fwd_world [''k''] demo_tensors4) =
     Inl (KeyError (WpArray 4), demo_bwd_world [''k''] demo_tensors4 demo_adj4)
   \<and> dev (demo_bwd_world [''k''] demo_tensors4 demo_adj4)
       = dev (demo_pass_world [''k''] demo_tensors4 demo_adj4)
   \<and> (\<exists>nm. trace (demo_bwd_world [''k''] demo_tensors4 demo_adj4)
             = trace (demo_pass_world [''k''] demo_tensors4 demo_adj4)
               @ [EvPrint (''Missing gradient for '' @ nm)])
   \<and> backward_pass (demo_ext None) (demo_ctx [] demo_tensors) demo_adj
       (demo_fwd_world [] demo_tensors) = Inr (demo_pass_world [] demo_tensors demo_adj)
   \<and> backward_with (demo_ext None) default_policy (demo_ctx [] demo_tensors) demo_adj
       (demo_fwd_world [] demo_tensors) =
     Inr (replicate 9 None @ [Some (Owned [Fin 101]), Some (Owned [Fin 2]), Some (Owned [Fin 105])],
          demo_bwd_world [] demo_tensors demo_adj)
   \<and> (\<exists>t. tape (update_params (demo_ctx [] demo_tensors)) = Some t
         \<and> demo_bwd_world [] demo_tensors demo_adj
             = tape_zero t (demo_pass_world [] demo_tensors demo_adj))"
  using failed_read_keeps_tape [OF demo_pass_missing, of default_policy "WpArray 4"
          "demo_bwd_world [''k''] demo_tensors4 demo_adj4" "[]" demo_world]
        failed_read_keeps_tape [OF demo_pass_eager, of default_policy "WpArray 4" demo_world
          "replicate 9 None @ [Some (Owned [Fin 101]), Some (Owned [Fin 2]),
                               Some (Owned [Fin 105])]"
          "demo_bwd_world [] demo_tensors demo_adj"]
        demo_pass_missing demo_backward_missing demo_pass_eager demo_backward_with_eager
  by blast


section \<open>Properties of the graph life cycle\<close>

lemma graph_step_refl: "graph_step w [] w"
  by (simp add: graph_step_def)

lemma graph_step_trans:
  "graph_step w es w1 \<Longrightarrow> graph_step w1 es' w2 \<Longrightarrow> graph_step w (es @ es') w2"
  by (simp add: graph_step_def)

lemma graph_step_trans0:
  "graph_step w [] w1 \<Longrightarrow> graph_step w1 es w2 \<Longrightarrow> graph_step w es w2"
  by (simp add: graph_step_def)

lemma graph_step_trans1:
  "graph_step w es w1 \<Longrightarrow> graph_step w1 [] w2 \<Longrightarrow> graph_step w es w2"
  by (simp add: graph_step_def)

lemma capture_log_graph_events: "capture_log (graph_events tr) = capture_log tr"
proof -
  have "is_graph_event ev \<and> is_capture_event ev \<longleftrightarrow> is_capture_event ev" for ev
    by (cases ev) simp_all
  then show ?thesis by (simp add: capture_log_def graph_events_def)
qed

lemma capture_log_append: "capture_log (xs @ ys) = capture_log xs @ capture_log ys"
  by (simp add: capture_log_def)

lemma graph_step_capture_log:
  "graph_step w evs w' \<Longrightarrow> capture_log (trace w') = capture_log (trace w) @ capture_log evs"
  by (metis capture_log_append capture_log_graph_events graph_step_def)

lemma step_world_simps [simp]:
  "step_world (Inr w) = w" "step_world (Inl (e, w)) = w"
  by (simp_all add: step_world_def)

lemma quiet_andthen:
  assumes "graph_step w [] (step_world r)"
    and "\<And>w1. r = Inr w1 \<Longrightarrow> graph_step w1 [] (step_world (f w1))"
  shows "graph_step w [] (step_world (andthen r f))"
proof (cases r)
  case (Inl ew)
  with assms(1) show ?thesis by (cases ew) (simp add: andthen_def)
next
  case (Inr w1)
  with assms show ?thesis by (auto simp add: andthen_def intro: graph_step_trans0)
qed

lemma emit_quiet: "\<not> is_graph_event ev \<Longrightarrow> graph_step w [] (emit ev w)"
  by (simp add: graph_step_def emit_def graph_events_def)

lemma emit_graph_event: "is_graph_event ev \<Longrightarrow> graph_step w [ev] (emit ev w)"
  by (simp add: graph_step_def emit_def graph_events_def)

lemma set_dev_quiet: "graph_step w [] (set_dev d w)"
  by (simp add: graph_step_def set_dev_def)

lemma sync_if_quiet: "graph_step w [] (sync_if b w)"
  by (simp add: sync_if_def emit_quiet graph_step_refl)

lemma wp_assign_quiet: "graph_step w [] (wp_assign dst xs w)"
  by (simp add: graph_step_def wp_assign_def emit_def set_dev_def graph_events_def)

lemma new_tape_quiet: "graph_step w [] (snd (new_tape w))"
  by (simp add: new_tape_def Let_def set_dev_quiet)

lemma assign_attr_quiet: "graph_step w [] (step_world (assign_attr x nm xs w))"
  by (simp add: assign_attr_def wp_assign_quiet graph_step_refl split: sum.splits attr.splits)

lemma assign_unnamed_quiet: "graph_step w [] (step_world (assign_unnamed x xo names nms w))"
proof (induction nms arbitrary: w)
  case Nil
  show ?case by (simp add: graph_step_refl)
next
  case (Cons nm nms)
  show ?case
    by (auto simp add: Cons graph_step_refl assign_attr_quiet
        split: sum.splits attr.splits intro!: quiet_andthen)
qed

lemma assign_named_quiet: "graph_step w [] (step_world (assign_named xo nts w))"
proof (induction nts arbitrary: w)
  case Nil
  show ?case by (simp add: graph_step_refl)
next
  case (Cons nt nts)
  show ?case
    by (cases nt) (auto simp add: Cons assign_attr_quiet intro!: quiet_andthen)
qed

lemma assign_tensors_quiet: "graph_step w [] (step_world (assign_tensors x xo names ts w))"
  by (simp add: assign_tensors_def quiet_andthen assign_unnamed_quiet assign_named_quiet)

lemma assign_meshes_quiet: "graph_step w [] (step_world (assign_meshes gs ms idx w))"
proof (induction gs ms idx w rule: assign_meshes.induct)
  case (1 ms idx w)
  show ?case by (simp add: graph_step_refl)
next
  case (2 gs ms idx w)
  then show ?case by simp
next
  case (3 pts gs ms idx w)
  then show ?case
    by (auto simp add: graph_step_refl intro: graph_step_trans0 [OF wp_assign_quiet])
qed

lemma assign_grad_quiet: "graph_step w [] (step_world (assign_grad a xs w))"
  by (simp add: assign_grad_def wp_assign_quiet graph_step_refl split: option.splits attr.splits)

lemma assign_adjoints_quiet: "graph_step w [] (step_world (assign_adjoints x nts w))"
proof (induction nts arbitrary: w)
  case Nil
  show ?case by (simp add: graph_step_refl)
next
  case (Cons nt nts)
  show ?case
    by (cases nt)
       (auto simp add: Cons assign_grad_quiet graph_step_refl split: sum.splits
          intro!: quiet_andthen)
qed

lemma assign_mesh_grads_quiet: "graph_step w [] (step_world (assign_mesh_grads gs ms idx w))"
proof (induction gs ms idx w rule: assign_mesh_grads.induct)
  case (1 ms idx w)
  show ?case by (simp add: graph_step_refl)
next
  case (2 gs ms idx w)
  then show ?case by simp
next
  case (3 pts gs ms idx w)
  then show ?case
    by (auto simp add: graph_step_refl assign_grad_quiet intro!: quiet_andthen)
qed

lemma assert_gradients_quiet: "graph_step w [] (step_world (assert_gradients t w))"
  by (simp add: assert_gradients_def graph_step_refl)

lemma tape_zero_quiet: "graph_step w [] (tape_zero t w)"
  by (simp add: tape_zero_def graph_step_def set_dev_def emit_def graph_events_def)

lemma read_adjoints_quiet:
  "graph_step w [] (world_after (read_adjoints X pol cx t w))"
  by (auto simp add: read_adjoints_unfold world_after_def on_error_def graph_step_refl emit_quiet
      split: sum.splits prod.splits exn.splits)

lemma run_sim_update_step:
  "graph_step w [EvRun SimUpdate] (snd (run_sim_update X up sp sts ctl c w))"
  by (simp add: run_sim_update_def Let_def split_beta graph_step_def set_dev_def emit_def
      graph_events_def)

lemma run_tape_backward_step:
  "graph_step w [EvRun TapeBackward] (snd (run_tape_backward X t c w))"
  by (simp add: run_tape_backward_def Let_def split_beta graph_step_def set_dev_def emit_def
      graph_events_def)

lemma launch_Some:
  "launch X (Some g) w = Inr (set_dev (capture_launch X g (dev w)) (emit (EvLaunch g) w))"
  by (simp add: launch_def)

lemma launch_step:
  "launch X (Some g) w = Inr w' \<Longrightarrow> graph_step w [EvLaunch g] w'"
  by (auto simp add: launch_def graph_step_def set_dev_def emit_def graph_events_def)

lemma launch_None: "launch X None w = Inl (AttributeError ''device'', w)"
  by (simp add: launch_def)

lemma push_inputs_quiet: "graph_step w [] (step_world (push_inputs cx w))"
  unfolding push_inputs_def Let_def split_beta
  by (intro quiet_andthen assign_tensors_quiet assign_named_quiet assign_meshes_quiet)

lemma push_adjoints_quiet: "graph_step w [] (step_world (push_adjoints cx a1 a2 a3 a4 w))"
  unfolding push_adjoints_def Let_def split_beta
  by (intro quiet_andthen assign_adjoints_quiet assign_mesh_grads_quiet)

text \<open>Replaying the forward graph: one launch of the stored graph, or an exception.\<close>

lemma replay_forward_Inr:
  assumes "replay_forward X cx w = Inr w'"
  shows "\<exists>g. update_graph w = Some g \<and> graph_step w [EvLaunch g] w'"
proof -
  from assms obtain w4 where p: "push_inputs cx w = Inr w4"
    and l: "launch X (update_graph w4) w4 = Inr w'"
    by (auto simp add: replay_forward_def andthen_def split: sum.splits)
  from push_inputs_quiet [of w cx] p have q: "graph_step w [] w4" by simp
  from l obtain g where g: "update_graph w4 = Some g"
    by (cases "update_graph w4") (simp_all add: launch_def)
  with l have "graph_step w4 [EvLaunch g] w'" by (simp add: launch_step)
  with q g show ?thesis by (auto simp add: graph_step_def)
qed

lemma replay_forward_Inl:
  assumes "replay_forward X cx w = Inl (e, w')"
  shows "graph_step w [] w'"
proof (cases "push_inputs cx w")
  case (Inl ew)
  with assms push_inputs_quiet [of w cx] show ?thesis
    by (cases ew) (simp add: replay_forward_def andthen_def)
next
  case (Inr w4)
  with assms have "launch X (update_graph w4) w4 = Inl (e, w')"
    by (simp add: replay_forward_def andthen_def)
  then have "w' = w4" by (cases "update_graph w4") (simp_all add: launch_def)
  with push_inputs_quiet [of w cx] Inr show ?thesis by simp
qed

text \<open>The two captures, by what the physics update and the reverse pass do.\<close>

lemma capture_graphs_cases:
  assumes "bwd_update_graph w = None"
  shows "(\<exists>e w'. capture_graphs X up sp sts ctl t w = Inl (e, w')
            \<and> update_graph w' = Some (Graph SimUpdate False) \<and> bwd_update_graph w' = None
            \<and> graph_events (trace w') = graph_events (trace w) @ fwd_capture_events False)
       \<or> (\<exists>e w'. capture_graphs X up sp sts ctl t w = Inl (e, w')
            \<and> update_graph w' = Some (Graph SimUpdate True)
            \<and> bwd_update_graph w' = Some (Graph TapeBackward False)
            \<and> graph_events (trace w') =
                graph_events (trace w) @ fwd_capture_events True @ bwd_capture_events False)
       \<or> (\<exists>w'. capture_graphs X up sp sts ctl t w = Inr w'
            \<and> update_graph w' = Some (Graph SimUpdate True)
            \<and> bwd_update_graph w' = Some (Graph TapeBackward True)
            \<and> graph_events (trace w') =
                graph_events (trace w) @ fwd_capture_events True @ bwd_capture_events True)"
proof (cases "fst (sim_update X up sp sts ctl True (dev w))")
  case (Some e)
  with assms show ?thesis
    by (simp add: capture_graphs_def run_sim_update_def Let_def split_beta emit_def set_dev_def
        graph_events_def fwd_capture_events_def)
next
  case None
  let ?d = "snd (sim_update X up sp sts ctl True (dev w))"
  show ?thesis
  proof (cases "fst (tape_backward X t True ?d)")
    case (Some e)
    with None show ?thesis
      by (simp add: capture_graphs_def run_sim_update_def run_tape_backward_def Let_def
          split_beta emit_def set_dev_def graph_events_def fwd_capture_events_def
          bwd_capture_events_def)
  next
    case None2: None
    with None show ?thesis
      by (simp add: capture_graphs_def run_sim_update_def run_tape_backward_def Let_def
          split_beta emit_def set_dev_def graph_events_def fwd_capture_events_def
          bwd_capture_events_def)
  qed
qed

lemma no_capture_refl: "no_capture w w"
  by (simp add: no_capture_def)

lemma no_capture_trans: "no_capture w w1 \<Longrightarrow> no_capture w1 w2 \<Longrightarrow> no_capture w w2"
  by (simp add: no_capture_def)

lemma graph_step_no_capture:
  "graph_step w evs w' \<Longrightarrow> capture_log evs = [] \<Longrightarrow> no_capture w w'"
  by (simp add: no_capture_def graph_step_capture_log) (simp add: graph_step_def)

lemma capture_log_simps:
  "capture_log [] = []"
  "capture_log [EvLaunch g] = []"
  "capture_log [EvRun c] = []"
  "capture_log [EvLaunch g, EvLaunch g'] = []"
  "capture_log (fwd_capture_events b) = [EvCaptureBegin, EvCaptureEnd (Graph SimUpdate b)]"
  "capture_log (bwd_capture_events b) = [EvCaptureBegin, EvCaptureEnd (Graph TapeBackward b)]"
  by (simp_all add: capture_log_def fwd_capture_events_def bwd_capture_events_def)

text \<open>The step of \<open>forward\<close>, case by case.\<close>

lemma forward_run_eager:
  assumes "\<not> use_graph_capture (update_params cx)"
  shows "graph_step w [EvRun SimUpdate] (step_world (forward_run X cx t w))"
proof -
  let ?r = "run_sim_update X (update_params cx) (sim_params cx) (states cx) (control cx) False w"
  have "step_world (forward_run X cx t w) = snd ?r"
    using assms by (cases ?r; cases "fst ?r") (simp_all add: forward_run_def Let_def split_beta)
  then show ?thesis by (simp add: run_sim_update_step)
qed

lemma forward_run_graph:
  assumes "use_graph_capture (update_params cx)"
  shows "forward_run X cx t w =
           andthen (ensure_captured X cx t w)
             (\<lambda>w3. andthen (replay_forward X cx w3)
                     (assign_tensors (snd (snd (states_bwd cx))) (snd (snd (states cx))) [] []))"
  using assms by (simp add: forward_run_def Let_def split_beta)

lemma replay_then_assign_Inr:
  assumes "andthen (replay_forward X cx w) (assign_tensors xo x [] []) = Inr w'"
  shows "\<exists>g. update_graph w = Some g \<and> graph_step w [EvLaunch g] w'"
proof -
  from assms obtain w1 where r: "replay_forward X cx w = Inr w1"
    and a: "assign_tensors xo x [] [] w1 = Inr w'"
    by (auto simp add: andthen_def split: sum.splits)
  from replay_forward_Inr [OF r] obtain g where g: "update_graph w = Some g"
    and s: "graph_step w [EvLaunch g] w1" by blast
  from assign_tensors_quiet [of w1 xo x "[]" "[]"] a have "graph_step w1 [] w'" by simp
  with s g show ?thesis by (blast intro: graph_step_trans1)
qed

lemma replay_then_assign_Inl:
  assumes "andthen (replay_forward X cx w) (assign_tensors xo x [] []) = Inl (e, w')"
  shows "graph_step w [] w' \<or> (\<exists>g. update_graph w = Some g \<and> graph_step w [EvLaunch g] w')"
proof (cases "replay_forward X cx w")
  case (Inl ew)
  with assms have "replay_forward X cx w = Inl (e, w')" by (simp add: andthen_def)
  then show ?thesis by (blast dest: replay_forward_Inl)
next
  case (Inr w1)
  with assms have a: "assign_tensors xo x [] [] w1 = Inl (e, w')" by (simp add: andthen_def)
  from replay_forward_Inr [OF Inr] obtain g where g: "update_graph w = Some g"
    and s: "graph_step w [EvLaunch g] w1" by blast
  from assign_tensors_quiet [of w1 xo x "[]" "[]"] a have "graph_step w1 [] w'" by simp
  with s g show ?thesis by (blast intro: graph_step_trans1)
qed

lemma forward_run_replay:
  assumes gc: "use_graph_capture (update_params cx)" and g: "update_graph w = Some g"
  shows "(forward_run X cx t w = Inr w' \<longrightarrow> graph_step w [EvLaunch g] w')
       \<and> (forward_run X cx t w = Inl (e, w') \<longrightarrow>
            graph_step w [] w' \<or> graph_step w [EvLaunch g] w')"
proof -
  have "forward_run X cx t w =
          andthen (replay_forward X cx w)
            (assign_tensors (snd (snd (states_bwd cx))) (snd (snd (states cx))) [] [])"
    using g by (simp add: forward_run_graph [OF gc] ensure_captured_def andthen_def)
  with g show ?thesis
    by (auto dest: replay_then_assign_Inr replay_then_assign_Inl)
qed

lemma forward_run_assert:
  assumes "use_graph_capture (update_params cx)" and "update_graph w = None"
    and "bwd_update_graph w \<noteq> None"
  shows "forward_run X cx t w = Inl (AssertionError, w)"
  using assms by (simp add: forward_run_graph ensure_captured_def andthen_def)

lemma forward_run_capture:
  assumes gc: "use_graph_capture (update_params cx)" and u: "update_graph w = None"
    and b: "bwd_update_graph w = None"
  shows "(\<exists>e w'. forward_run X cx t w = Inl (e, w')
            \<and> update_graph w' = Some (Graph SimUpdate False) \<and> bwd_update_graph w' = None
            \<and> graph_events (trace w') = graph_events (trace w) @ fwd_capture_events False)
       \<or> (\<exists>e w'. forward_run X cx t w = Inl (e, w')
            \<and> update_graph w' = Some (Graph SimUpdate True)
            \<and> bwd_update_graph w' = Some (Graph TapeBackward False)
            \<and> graph_events (trace w') =
                graph_events (trace w) @ fwd_capture_events True @ bwd_capture_events False)
       \<or> (\<exists>w'. forward_run X cx t w = Inr w'
            \<and> update_graph w' = Some (Graph SimUpdate True)
            \<and> bwd_update_graph w' = Some (Graph TapeBackward True)
            \<and> graph_events (trace w') =
                graph_events (trace w) @ fwd_capture_events True @ bwd_capture_events True
                @ [EvLaunch (Graph SimUpdate True)])
       \<or> (\<exists>e w' evs. forward_run X cx t w = Inl (e, w')
            \<and> update_graph w' = Some (Graph SimUpdate True)
            \<and> bwd_update_graph w' = Some (Graph TapeBackward True)
            \<and> graph_events (trace w') =
                graph_events (trace w) @ fwd_capture_events True @ bwd_capture_events True @ evs
            \<and> (evs = [] \<or> evs = [EvLaunch (Graph SimUpdate True)]))"
proof -
  let ?cap = "capture_graphs X (update_params cx) (sim_params cx) (states_bwd cx)
                (control_bwd cx) t w"
  let ?rest = "\<lambda>w3. andthen (replay_forward X cx w3)
                 (assign_tensors (snd (snd (states_bwd cx))) (snd (snd (states cx))) [] [])"
  have fr: "forward_run X cx t w = andthen ?cap ?rest"
    using u b by (simp add: forward_run_graph [OF gc] ensure_captured_def)
  from capture_graphs_cases [OF b, of X "update_params cx" "sim_params cx" "states_bwd cx"
      "control_bwd cx" t]
  consider
    (f1) e w' where "?cap = Inl (e, w')" "update_graph w' = Some (Graph SimUpdate False)"
      "bwd_update_graph w' = None"
      "graph_events (trace w') = graph_events (trace w) @ fwd_capture_events False"
  | (f2) e w' where "?cap = Inl (e, w')" "update_graph w' = Some (Graph SimUpdate True)"
      "bwd_update_graph w' = Some (Graph TapeBackward False)"
      "graph_events (trace w') =
         graph_events (trace w) @ fwd_capture_events True @ bwd_capture_events False"
  | (ok) w3 where "?cap = Inr w3" "update_graph w3 = Some (Graph SimUpdate True)"
      "bwd_update_graph w3 = Some (Graph TapeBackward True)"
      "graph_events (trace w3) =
         graph_events (trace w) @ fwd_capture_events True @ bwd_capture_events True"
    by blast
  then show ?thesis
  proof cases
    case f1
    then show ?thesis by (simp add: fr andthen_def)
  next
    case f2
    then show ?thesis by (simp add: fr andthen_def)
  next
    case ok
    show ?thesis
    proof (cases "?rest w3")
      case (Inr w')
      with replay_then_assign_Inr [of X cx w3] ok
      have "graph_step w3 [EvLaunch (Graph SimUpdate True)] w'" by auto
      with ok Inr have "forward_run X cx t w = Inr w'
            \<and> update_graph w' = Some (Graph SimUpdate True)
            \<and> bwd_update_graph w' = Some (Graph TapeBackward True)
            \<and> graph_events (trace w') =
                graph_events (trace w) @ fwd_capture_events True @ bwd_capture_events True
                @ [EvLaunch (Graph SimUpdate True)]"
        by (simp add: fr andthen_def graph_step_def)
      then show ?thesis by blast
    next
      case (Inl ew)
      obtain e w' where ew: "ew = (e, w')" by (cases ew)
      with Inl replay_then_assign_Inl [of X cx w3 _ _ e w'] ok
      have "graph_step w3 [] w' \<or> graph_step w3 [EvLaunch (Graph SimUpdate True)] w'"
        by auto
      with ok Inl ew have "forward_run X cx t w = Inl (e, w')
            \<and> update_graph w' = Some (Graph SimUpdate True)
            \<and> bwd_update_graph w' = Some (Graph TapeBackward True)
            \<and> (graph_events (trace w') =
                graph_events (trace w) @ fwd_capture_events True @ bwd_capture_events True @ []
              \<or> graph_events (trace w') =
                graph_events (trace w) @ fwd_capture_events True @ bwd_capture_events True
                @ [EvLaunch (Graph SimUpdate True)])"
        by (auto simp add: fr andthen_def graph_step_def)
      then show ?thesis by blast
    qed
  qed
qed

lemma world_after_simps [simp]:
  "world_after (Inr (v, w)) = w" "world_after (Inl (e, w)) = w"
  by (simp_all add: world_after_def)

text \<open>\<open>forward\<close> around its step: what comes before and after touches no graph.\<close>

lemma forward_around_run:
  "\<exists>t w2. graph_step w0 [] w2
     \<and> use_graph_capture (update_params (make_ctx a t)) = use_graph_capture (update_params a)
     \<and> graph_step (step_world (forward_run X (make_ctx a t) t w2)) []
         (world_after (forward X a w0))
     \<and> (\<forall>outs cx w'. forward X a w0 = Inr ((outs, cx), w') \<longrightarrow>
           cx = make_ctx a t \<and> (\<exists>w4. forward_run X (make_ctx a t) t w2 = Inr w4))
     \<and> (\<forall>e w'. forward_run X (make_ctx a t) t w2 = Inl (e, w') \<longrightarrow>
           forward X a w0 = Inl (e, w'))"
proof -
  let ?w1 = "sync_if (synchronize (update_params a)) w0"
  let ?tw = "case tape (update_params a) of None \<Rightarrow> new_tape ?w1 | Some t \<Rightarrow> (t, ?w1)"
  let ?t = "fst ?tw" and ?w2 = "snd ?tw"
  let ?cx = "make_ctx a ?t"
  let ?run = "forward_run X ?cx ?t ?w2"
  have q: "graph_step w0 [] ?w2"
    by (cases "tape (update_params a)")
       (auto intro: graph_step_trans0 [OF sync_if_quiet] new_tape_quiet sync_if_quiet)
  have gc: "use_graph_capture (update_params ?cx) = use_graph_capture (update_params a)"
    by (simp add: make_ctx_fields)
  have fw: "forward X a w0 =
      andthen ?run
        (\<lambda>w4. let w5 = sync_if (synchronize (update_params ?cx)) w4
              in case forward_outputs ?cx w5 of
                   Inl e \<Rightarrow> Inl (e, w5)
                 | Inr outs \<Rightarrow> Inr ((outs, ?cx), w5))"
    by (simp add: forward_def forward_start_def Let_def split_beta)
  have after: "graph_step (step_world ?run) [] (world_after (forward X a w0))"
  proof (cases ?run)
    case (Inl ew)
    then show ?thesis by (cases ew) (simp add: fw andthen_def graph_step_refl)
  next
    case (Inr w4)
    then show ?thesis
      by (auto simp add: fw andthen_def Let_def sync_if_quiet split: sum.splits)
  qed
  have ok: "\<forall>outs cx w'. forward X a w0 = Inr ((outs, cx), w') \<longrightarrow>
           cx = ?cx \<and> (\<exists>w4. ?run = Inr w4)"
    by (cases ?run) (auto simp add: fw andthen_def Let_def split: sum.splits)
  have fail: "\<forall>e w'. ?run = Inl (e, w') \<longrightarrow> forward X a w0 = Inl (e, w')"
    by (simp add: fw andthen_def)
  from q gc after ok fail show ?thesis by blast
qed

text \<open>The reverse pass of \<open>backward\<close>, case by case.\<close>

lemma no_capture_andthen:
  assumes "no_capture w (step_world r)"
    and "\<And>w1. r = Inr w1 \<Longrightarrow> no_capture w1 (step_world (f w1))"
  shows "no_capture w (step_world (andthen r f))"
proof (cases r)
  case (Inl ew)
  with assms(1) show ?thesis by (cases ew) (simp add: andthen_def)
next
  case (Inr w1)
  with assms show ?thesis by (auto simp add: andthen_def intro: no_capture_trans)
qed

lemma quiet_no_capture: "graph_step w [] w' \<Longrightarrow> no_capture w w'"
  using graph_step_no_capture [of w "[]" w'] by (simp add: capture_log_simps)

lemma replay_forward_no_capture: "no_capture w (step_world (replay_forward X cx w))"
proof (cases "replay_forward X cx w")
  case (Inl ew)
  then show ?thesis
    by (cases ew) (auto dest: replay_forward_Inl intro: quiet_no_capture)
next
  case (Inr w')
  then show ?thesis
    by (auto dest!: replay_forward_Inr intro: graph_step_no_capture simp add: capture_log_simps)
qed

lemma launch_no_capture: "no_capture w (step_world (launch X go w))"
  by (cases go)
     (auto simp add: launch_None launch_Some no_capture_refl capture_log_simps
        intro!: graph_step_no_capture [OF launch_step [OF launch_Some]])

lemma eager_backward_no_capture:
  "no_capture w (step_world (eager_backward X cx t a1 a3 w))"
proof -
  have last: "no_capture w3
       (step_world (case fst (run_tape_backward X t False w3) of
                      None \<Rightarrow> Inr (snd (run_tape_backward X t False w3))
                    | Some e \<Rightarrow> Inl (e, snd (run_tape_backward X t False w3))))" for w3
  proof -
    let ?r = "run_tape_backward X t False w3"
    have "step_world (case fst ?r of None \<Rightarrow> Inr (snd ?r) | Some e \<Rightarrow> Inl (e, snd ?r)) = snd ?r"
      by (cases "fst ?r") simp_all
    then show ?thesis
      by (simp add: graph_step_no_capture [OF run_tape_backward_step] capture_log_simps)
  qed
  show ?thesis
    unfolding eager_backward_def Let_def split_beta
    by (intro no_capture_andthen quiet_no_capture [OF assign_adjoints_quiet] last)
qed

lemma reverse_pass_no_capture: "no_capture w (step_world (reverse_pass X cx t adj w))"
  unfolding reverse_pass_def Let_def
  by (auto intro!: no_capture_andthen replay_forward_no_capture launch_no_capture
        eager_backward_no_capture quiet_no_capture [OF push_adjoints_quiet])

lemma backward_pass_no_capture: "no_capture w (step_world (backward_pass X cx adj w))"
proof (cases "tape (update_params cx)")
  case None
  then show ?thesis
    by (simp add: backward_pass_def Let_def quiet_no_capture sync_if_quiet)
next
  case (Some t)
  have s: "no_capture w (sync_if b w)" for b w
    by (simp add: quiet_no_capture sync_if_quiet)
  have fin: "no_capture w7 (step_world (Inr (sync_if b w7)))" for b w7
    by (simp add: s)
  have chk: "no_capture w6
      (step_world (if use_graph_capture (update_params cx) then assert_gradients t w6
                   else Inr w6))" for w6
    by (simp add: no_capture_refl quiet_no_capture [OF assert_gradients_quiet])
  show ?thesis
    unfolding backward_pass_def Let_def Some option.case
    by (rule no_capture_trans [OF s [of w "synchronize (update_params cx)"]])
       (intro no_capture_andthen fin chk reverse_pass_no_capture)
qed

lemma backward_pass_graph_Inr:
  assumes gc: "use_graph_capture (update_params cx)"
    and ok: "backward_pass X cx adj w = Inr w'"
  shows "\<exists>gf gb. update_graph w = Some gf \<and> bwd_update_graph w = Some gb
           \<and> graph_step w [EvLaunch gf, EvLaunch gb] w'"
proof -
  from backward_pass_tape [OF ok] obtain t where t: "tape (update_params cx) = Some t" by blast
  let ?w1 = "sync_if (synchronize (update_params cx)) w"
  from ok t gc obtain w2 a1 a2 a3 a4 w6 w7 where
    r: "replay_forward X cx ?w1 = Inr w2" and
    p: "push_adjoints cx a1 a2 a3 a4 w2 = Inr w6" and
    l: "launch X (bwd_update_graph w6) w6 = Inr w7" and
    a: "assert_gradients t w7 = Inr w7" and
    w': "w' = sync_if (synchronize (update_params cx)) w7"
    by (auto simp add: backward_pass_def reverse_pass_def Let_def andthen_def
        assert_gradients_def split: sum.splits if_splits)
  have q1: "graph_step w [] ?w1" by (rule sync_if_quiet)
  from replay_forward_Inr [OF r] obtain gf where gf: "update_graph ?w1 = Some gf"
    and s2: "graph_step ?w1 [EvLaunch gf] w2" by blast
  from push_adjoints_quiet [of w2 cx a1 a2 a3 a4] p have q6: "graph_step w2 [] w6" by simp
  from l obtain gb where gb: "bwd_update_graph w6 = Some gb"
    by (cases "bwd_update_graph w6") (simp_all add: launch_def)
  with l have s7: "graph_step w6 [EvLaunch gb] w7" by (simp add: launch_step)
  have q8: "graph_step w7 [] w'" by (simp add: w' sync_if_quiet)
  from q1 s2 q6 s7 q8 have "graph_step w [EvLaunch gf, EvLaunch gb] w'"
    by (simp add: graph_step_def)
  moreover from q1 gf have "update_graph w = Some gf" by (simp add: graph_step_def)
  moreover from q1 s2 q6 gb have "bwd_update_graph w = Some gb" by (simp add: graph_step_def)
  ultimately show ?thesis by blast
qed

lemma backward_with_world:
  "graph_step (step_world (backward_pass X cx adj w)) []
     (world_after (backward_with X pol cx adj w))"
proof (cases "backward_pass X cx adj w")
  case (Inl ew)
  then show ?thesis
    by (cases ew) (auto simp add: backward_with_def andthen_def graph_step_refl)
next
  case (Inr w1)
  from backward_pass_tape [OF Inr] obtain t where t: "tape (update_params cx) = Some t" by blast
  have "graph_step w1 [] (world_after (backward_with X pol cx adj w))"
  proof (cases "read_adjoints X pol cx t w1")
    case (Inl ew)
    with read_adjoints_quiet [of w1 X pol cx t] show ?thesis
      by (cases ew) (simp add: backward_with_split [OF Inr t])
  next
    case r: (Inr vw)
    obtain vs w2 where vw: "vw = (vs, w2)" by (cases vw)
    with r read_adjoints_Inr [of X pol cx t w1 vs w2] have "w2 = w1" by simp
    with r vw show ?thesis
      by (simp add: backward_with_split [OF Inr t] tape_zero_quiet)
  qed
  with Inr show ?thesis by simp
qed

lemma backward_with_no_capture:
  "no_capture w (world_after (backward_with X pol cx adj w))"
  using backward_pass_no_capture [of w X cx adj] backward_with_world [of X cx adj w pol]
  by (blast intro: no_capture_trans quiet_no_capture)

lemma backward_with_graph_Inr:
  assumes gc: "use_graph_capture (update_params cx)"
    and ok: "backward_with X pol cx adj w = Inr (res, w')"
  shows "\<exists>gf gb. update_graph w = Some gf \<and> bwd_update_graph w = Some gb
           \<and> graph_step w [EvLaunch gf, EvLaunch gb] w'"
proof -
  from backward_with_Inr [OF ok] obtain w1 t adjs w2 where
    pass: "backward_pass X cx adj w = Inr w1" and
    rd: "read_adjoints X pol cx t w1 = Inr (adjs, w2)" and w': "w' = tape_zero t w2"
    by blast
  from read_adjoints_Inr [OF rd] have "w2 = w1" by simp
  with w' have "graph_step w1 [] w'" by (simp add: tape_zero_quiet)
  with backward_pass_graph_Inr [OF gc pass] show ?thesis
    by (blast intro: graph_step_trans1)
qed

text \<open>One call of \<open>forward\<close> captures at most once, and only when there is no forward graph.\<close>

lemma forward_summary:
  "(update_graph w \<noteq> None \<longrightarrow> no_capture w (world_after (forward X a w)))
   \<and> (update_graph w = None \<longrightarrow>
        no_capture w (world_after (forward X a w))
        \<or> (update_graph (world_after (forward X a w)) \<noteq> None
            \<and> (\<exists>c. c \<noteq> [] \<and> one_capture c
                 \<and> capture_log (trace (world_after (forward X a w)))
                     = capture_log (trace w) @ c)))"
proof -
  let ?w' = "world_after (forward X a w)"
  from forward_around_run [of w a X] obtain t w2 where
    q: "graph_step w [] w2" and
    gc: "use_graph_capture (update_params (make_ctx a t)) = use_graph_capture (update_params a)"
    and after: "graph_step (step_world (forward_run X (make_ctx a t) t w2)) [] ?w'"
    by blast
  let ?cx = "make_ctx a t"
  let ?W = "step_world (forward_run X ?cx t w2)"
  have nq: "no_capture w w2" by (rule quiet_no_capture [OF q])
  have na: "no_capture ?W ?w'" by (rule quiet_no_capture [OF after])
  have same: "update_graph w2 = update_graph w" "bwd_update_graph w2 = bwd_update_graph w"
    "capture_log (trace w2) = capture_log (trace w)"
    using nq by (simp_all add: no_capture_def)
  have same': "update_graph ?w' = update_graph ?W"
    "capture_log (trace ?w') = capture_log (trace ?W)"
    using na by (simp_all add: no_capture_def)
  show ?thesis
  proof (cases "use_graph_capture (update_params ?cx)")
    case False
    from forward_run_eager [OF False, of w2 X t]
    have "no_capture w2 ?W" by (rule graph_step_no_capture) (simp add: capture_log_simps)
    with nq na have "no_capture w ?w'" by (blast intro: no_capture_trans)
    then show ?thesis by simp
  next
    case True
    show ?thesis
    proof (cases "update_graph w2")
      case (Some g)
      have "no_capture w2 ?W"
      proof (cases "forward_run X ?cx t w2")
        case (Inl ew)
        obtain e w' where "ew = (e, w')" by (cases ew)
        with Inl forward_run_replay [OF True Some, where X = X and t = t and e = e and w' = w']
        show ?thesis
          by (auto intro: graph_step_no_capture simp add: capture_log_simps)
      next
        case (Inr w')
        with forward_run_replay [OF True Some, where X = X and t = t and w' = w'] show ?thesis
          by (auto intro: graph_step_no_capture simp add: capture_log_simps)
      qed
      with nq na have "no_capture w ?w'" by (blast intro: no_capture_trans)
      then show ?thesis by simp
    next
      case None
      show ?thesis
      proof (cases "bwd_update_graph w2")
        case b: (Some gb)
        with forward_run_assert [OF True None, of X t] have "?W = w2" by simp
        with nq na have "no_capture w ?w'" by (simp add: no_capture_def)
        then show ?thesis by simp
      next
        case b: None
        from forward_run_capture [OF True None b, of X t]
        have "\<exists>c. c \<noteq> [] \<and> one_capture c \<and> update_graph ?W \<noteq> None
                 \<and> capture_log (graph_events (trace ?W))
                     = capture_log (graph_events (trace w2)) @ c"
          by (elim disjE exE conjE)
             (auto simp add: capture_log_append capture_log_simps one_capture_def)
        then obtain c where "c \<noteq> []" "one_capture c" "update_graph ?W \<noteq> None"
          "capture_log (trace ?W) = capture_log (trace w2) @ c"
          by (auto simp add: capture_log_graph_events)
        with same same' None show ?thesis by auto
      qed
    qed
  qed
qed

lemma call_summary:
  "(update_graph w \<noteq> None \<longrightarrow> no_capture w (run_calls X [c] w))
   \<and> (update_graph w = None \<longrightarrow>
        no_capture w (run_calls X [c] w)
        \<or> (update_graph (run_calls X [c] w) \<noteq> None
            \<and> (\<exists>cap. cap \<noteq> [] \<and> one_capture cap
                 \<and> capture_log (trace (run_calls X [c] w)) = capture_log (trace w) @ cap)))"
proof (cases c)
  case (Forward a)
  with forward_summary [of w X a] show ?thesis by simp
next
  case (Backward cx adj)
  with backward_with_no_capture [of w X default_policy cx adj] show ?thesis
    by (simp add: backward_def)
qed

lemma run_calls_Cons: "run_calls X (c # cs) w = run_calls X cs (run_calls X [c] w)"
  by (cases c) simp_all

lemma run_calls_captures:
  "\<exists>cap. one_capture cap
     \<and> capture_log (trace (run_calls X cs w)) = capture_log (trace w) @ cap
     \<and> (update_graph w \<noteq> None \<longrightarrow> cap = [])"
proof (induction cs arbitrary: w)
  case Nil
  show ?case by (simp add: one_capture_def)
next
  case (Cons c cs)
  let ?w1 = "run_calls X [c] w"
  from Cons [of ?w1] obtain cap where
    cap: "one_capture cap"
      "capture_log (trace (run_calls X cs ?w1)) = capture_log (trace ?w1) @ cap"
      "update_graph ?w1 \<noteq> None \<longrightarrow> cap = []"
    by blast
  from call_summary [of w X c] consider
    (quiet) "no_capture w ?w1"
  | (captured) cap1 where "update_graph w = None" "update_graph ?w1 \<noteq> None" "cap1 \<noteq> []"
      "one_capture cap1" "capture_log (trace ?w1) = capture_log (trace w) @ cap1"
    by (cases "update_graph w") auto
  then show ?case
  proof cases
    case quiet
    with cap have "one_capture cap
       \<and> capture_log (trace (run_calls X (c # cs) w)) = capture_log (trace w) @ cap
       \<and> (update_graph w \<noteq> None \<longrightarrow> cap = [])"
      by (simp add: run_calls_Cons [of X c cs] no_capture_def)
    then show ?thesis by blast
  next
    case captured
    with cap have "one_capture cap1
       \<and> capture_log (trace (run_calls X (c # cs) w)) = capture_log (trace w) @ cap1
       \<and> (update_graph w \<noteq> None \<longrightarrow> cap1 = [])"
      by (simp add: run_calls_Cons [of X c cs])
    then show ?thesis by blast
  qed
qed

lemma first_forward_captures:
  assumes gc: "use_graph_capture (update_params a)"
    and u: "update_graph w = None" and b: "bwd_update_graph w = None"
    and ok: "forward X a w = Inr ((outs, cx), w')"
  shows "update_graph w' = Some (Graph SimUpdate True)
       \<and> bwd_update_graph w' = Some (Graph TapeBackward True)
       \<and> graph_events (trace w') =
           graph_events (trace w) @ fwd_capture_events True @ bwd_capture_events True
           @ [EvLaunch (Graph SimUpdate True)]"
proof -
  from forward_around_run [of w a X] ok obtain t w2 w4 where
    q: "graph_step w [] w2" and
    gc': "use_graph_capture (update_params (make_ctx a t)) = use_graph_capture (update_params a)"
    and after: "graph_step (step_world (forward_run X (make_ctx a t) t w2)) []
                  (world_after (forward X a w))"
    and run: "forward_run X (make_ctx a t) t w2 = Inr w4"
    by blast
  from q u b have u2: "update_graph w2 = None" and b2: "bwd_update_graph w2 = None"
    and g2: "graph_events (trace w2) = graph_events (trace w)"
    by (simp_all add: graph_step_def)
  from gc gc' have gcx: "use_graph_capture (update_params (make_ctx a t))" by simp
  from forward_run_capture [OF gcx u2 b2, of X t] run
  have "update_graph w4 = Some (Graph SimUpdate True)
      \<and> bwd_update_graph w4 = Some (Graph TapeBackward True)
      \<and> graph_events (trace w4) =
           graph_events (trace w2) @ fwd_capture_events True @ bwd_capture_events True
           @ [EvLaunch (Graph SimUpdate True)]"
    by auto
  moreover from after run ok have "graph_step w4 [] w'" by simp
  ultimately show ?thesis using g2 by (simp add: graph_step_def)
qed

lemma later_forward_replays:
  assumes gc: "use_graph_capture (update_params a)"
    and u: "update_graph w = Some g"
    and ok: "forward X a w = Inr ((outs, cx), w')"
  shows "graph_step w [EvLaunch g] w'"
proof -
  from forward_around_run [of w a X] ok obtain t w2 w4 where
    q: "graph_step w [] w2" and
    gc': "use_graph_capture (update_params (make_ctx a t)) = use_graph_capture (update_params a)"
    and after: "graph_step (step_world (forward_run X (make_ctx a t) t w2)) []
                  (world_after (forward X a w))"
    and run: "forward_run X (make_ctx a t) t w2 = Inr w4"
    by blast
  from q u have u2: "update_graph w2 = Some g" by (simp add: graph_step_def)
  from gc gc' have gcx: "use_graph_capture (update_params (make_ctx a t))" by simp
  from forward_run_replay [OF gcx u2, where X = X and t = t and w' = w4] run have "graph_step w2 [EvLaunch g] w4"
    by simp
  moreover from after run ok have "graph_step w4 [] w'" by simp
  ultimately show ?thesis using q by (simp add: graph_step_def)
qed

text \<open>
  Claim C1, amended.  In graph-capture mode, a first call of \<open>forward\<close> that returns has
  captured exactly two graphs, in order: the physics update as the forward graph, then the
  reverse pass of the tape as the backward graph; it has stored both on the integrator and
  replayed the forward graph.  Every later call of \<open>forward\<close> that returns has only
  replayed the stored forward graph.  Every call of \<open>backward\<close> that returns has only
  replayed stored graphs, the forward graph first (the step is recomputed from the saved
  inputs) and then the backward graph; it runs and captures nothing.  And over any
  sequence of calls of \<open>forward\<close> and \<open>backward\<close>, whether they return or raise, capture
  happens at most once: the log gains at most one capture of a forward graph and one of a
  backward graph, and none at all if the integrator had a forward graph at the start.
\<close>

theorem graph_capture_lifecycle:
  "(use_graph_capture (update_params a) \<and> update_graph w = None \<and> bwd_update_graph w = None
      \<and> forward X a w = Inr ((outs, cx), w') \<longrightarrow>
        update_graph w' = Some (Graph SimUpdate True)
      \<and> bwd_update_graph w' = Some (Graph TapeBackward True)
      \<and> graph_events (trace w') =
          graph_events (trace w) @ fwd_capture_events True @ bwd_capture_events True
          @ [EvLaunch (Graph SimUpdate True)])
   \<and> (use_graph_capture (update_params a2) \<and> update_graph w2 = Some g
      \<and> forward X a2 w2 = Inr ((outs2, cx2), w2') \<longrightarrow>
        graph_step w2 [EvLaunch g] w2')
   \<and> (use_graph_capture (update_params cb) \<and> backward X cb adj v = Inr (res, v') \<longrightarrow>
        (\<exists>gf gb. update_graph v = Some gf \<and> bwd_update_graph v = Some gb
           \<and> graph_step v [EvLaunch gf, EvLaunch gb] v'))
   \<and> (\<exists>cap. one_capture cap
         \<and> capture_log (trace (run_calls X cs w0)) = capture_log (trace w0) @ cap
         \<and> (update_graph w0 \<noteq> None \<longrightarrow> cap = []))"
  using first_forward_captures [of a w X outs cx w']
    later_forward_replays [of a2 w2 g X outs2 cx2 w2']
    backward_with_graph_Inr [of cb X default_policy adj v res v']
    run_calls_captures [of X cs w0]
  by (simp add: backward_def)

lemma forward_start_quiet:
  assumes "forward_start a w = (t, w2)"
  shows "graph_step w [] w2"
proof (cases "tape (update_params a)")
  case None
  with assms have "w2 = snd (new_tape (sync_if (synchronize (update_params a)) w))"
    by (simp add: forward_start_def Let_def)
  then show ?thesis
    by (auto intro: graph_step_trans0 [OF sync_if_quiet] new_tape_quiet)
next
  case (Some t')
  with assms show ?thesis by (auto simp add: forward_start_def Let_def sync_if_quiet)
qed

lemma forward_from_start:
  assumes "forward_start a w = (t, w2)"
  shows "forward X a w =
      andthen (forward_run X (make_ctx a t) t w2)
        (\<lambda>w4. let w5 = sync_if (synchronize (update_params (make_ctx a t))) w4
              in case forward_outputs (make_ctx a t) w5 of
                   Inl e \<Rightarrow> Inl (e, w5)
                 | Inr outs \<Rightarrow> Inr ((outs, make_ctx a t), w5))"
  using assms by (simp add: forward_def Let_def)

lemma capture_graphs_first_raises:
  assumes "sim_update X up sp sts ctl True (dev w) = (Some e, d1)"
  shows "\<exists>w'. capture_graphs X up sp sts ctl t w = Inl (e, w') \<and> dev w' = d1
           \<and> update_graph w' = Some (Graph SimUpdate False)
           \<and> bwd_update_graph w' = bwd_update_graph w
           \<and> graph_events (trace w') = graph_events (trace w) @ fwd_capture_events False"
  using assms
  by (simp add: capture_graphs_def run_sim_update_def Let_def emit_def set_dev_def
      graph_events_def fwd_capture_events_def)

lemma capture_graphs_second_raises:
  assumes "sim_update X up sp sts ctl True (dev w) = (None, d1)"
    and "tape_backward X t True d1 = (Some e, d2)"
  shows "\<exists>w'. capture_graphs X up sp sts ctl t w = Inl (e, w') \<and> dev w' = d2
           \<and> update_graph w' = Some (Graph SimUpdate True)
           \<and> bwd_update_graph w' = Some (Graph TapeBackward False)
           \<and> graph_events (trace w') =
               graph_events (trace w) @ fwd_capture_events True @ bwd_capture_events False"
  using assms
  by (simp add: capture_graphs_def run_sim_update_def run_tape_backward_def Let_def emit_def
      set_dev_def graph_events_def fwd_capture_events_def bwd_capture_events_def)

lemma forward_capture_raises:
  assumes gc: "use_graph_capture (update_params a)"
    and u: "update_graph w = None" and b: "bwd_update_graph w = None"
    and st: "forward_start a w = (t, w2)"
    and cap: "capture_graphs X ((update_params a)\<lparr>tape := Some t\<rparr>) (sim_params a) (states_bwd a)
                (control_bwd a) t w2 = Inl (e, w')"
  shows "forward X a w = Inl (e, w')"
proof -
  from forward_start_quiet [OF st] u b
  have u2: "update_graph w2 = None" and b2: "bwd_update_graph w2 = None"
    by (simp_all add: graph_step_def)
  from gc have gcx: "use_graph_capture (update_params (make_ctx a t))"
    by (simp add: make_ctx_fields)
  have "forward_run X (make_ctx a t) t w2 = Inl (e, w')"
    using u2 b2 cap
    by (simp add: forward_run_graph [OF gcx] ensure_captured_def andthen_def make_ctx_fields)
  then show ?thesis by (simp add: forward_from_start [OF st] andthen_def)
qed

text \<open>
  Claim C3, amended.  In graph-capture mode, when the integrator has no graph yet: if the
  physics update raises during the first capture, \<open>forward\<close> raises that exception and
  returns nothing, and the integrator is left holding what \<open>wp.capture_end()\<close> returned
  for the failed capture as its forward graph, with no backward graph; if the physics
  update returns and the reverse pass raises during the second capture, \<open>forward\<close> raises
  that exception, and the integrator is left holding the forward graph and, as its
  backward graph, what the second \<open>wp.capture_end()\<close> returned.  In neither case has the
  call replayed anything.
\<close>

theorem failed_capture_raises_with_graph_stored:
  assumes gc: "use_graph_capture (update_params a)"
    and u: "update_graph w = None" and b: "bwd_update_graph w = None"
    and st: "forward_start a w = (t, w2)"
  shows "(sim_update X ((update_params a)\<lparr>tape := Some t\<rparr>) (sim_params a) (states_bwd a)
            (control_bwd a) True (dev w2) = (Some e, d1) \<longrightarrow>
          (\<exists>w'. forward X a w = Inl (e, w') \<and> dev w' = d1
             \<and> update_graph w' = Some (Graph SimUpdate False) \<and> bwd_update_graph w' = None
             \<and> graph_events (trace w') = graph_events (trace w) @ fwd_capture_events False))
       \<and> (sim_update X ((update_params a)\<lparr>tape := Some t\<rparr>) (sim_params a) (states_bwd a)
            (control_bwd a) True (dev w2) = (None, d1)
          \<and> tape_backward X t True d1 = (Some e, d2) \<longrightarrow>
          (\<exists>w'. forward X a w = Inl (e, w') \<and> dev w' = d2
             \<and> update_graph w' = Some (Graph SimUpdate True)
             \<and> bwd_update_graph w' = Some (Graph TapeBackward False)
             \<and> graph_events (trace w') =
                 graph_events (trace w) @ fwd_capture_events True @ bwd_capture_events False))"
proof (intro conjI impI)
  from forward_start_quiet [OF st] b
  have b2: "bwd_update_graph w2 = None" and tr: "graph_events (trace w2) = graph_events (trace w)"
    by (simp_all add: graph_step_def)
  {
    assume "sim_update X ((update_params a)\<lparr>tape := Some t\<rparr>) (sim_params a) (states_bwd a)
            (control_bwd a) True (dev w2) = (Some e, d1)"
    from capture_graphs_first_raises [OF this, of t] obtain w' where
      cap: "capture_graphs X ((update_params a)\<lparr>tape := Some t\<rparr>) (sim_params a) (states_bwd a)
              (control_bwd a) t w2 = Inl (e, w')"
      and rest: "dev w' = d1" "update_graph w' = Some (Graph SimUpdate False)"
        "bwd_update_graph w' = bwd_update_graph w2"
        "graph_events (trace w') = graph_events (trace w2) @ fwd_capture_events False"
      by blast
    from forward_capture_raises [OF gc u b st cap] rest b2 tr
    show "\<exists>w'. forward X a w = Inl (e, w') \<and> dev w' = d1
             \<and> update_graph w' = Some (Graph SimUpdate False) \<and> bwd_update_graph w' = None
             \<and> graph_events (trace w') = graph_events (trace w) @ fwd_capture_events False"
      by simp
  }
  {
    assume "sim_update X ((update_params a)\<lparr>tape := Some t\<rparr>) (sim_params a) (states_bwd a)
            (control_bwd a) True (dev w2) = (None, d1)
          \<and> tape_backward X t True d1 = (Some e, d2)"
    then have s1: "sim_update X ((update_params a)\<lparr>tape := Some t\<rparr>) (sim_params a)
            (states_bwd a) (control_bwd a) True (dev w2) = (None, d1)"
      and s2: "tape_backward X t True d1 = (Some e, d2)"
      by simp_all
    from capture_graphs_second_raises [OF s1 s2] obtain w' where
      cap: "capture_graphs X ((update_params a)\<lparr>tape := Some t\<rparr>) (sim_params a) (states_bwd a)
              (control_bwd a) t w2 = Inl (e, w')"
      and rest: "dev w' = d2" "update_graph w' = Some (Graph SimUpdate True)"
        "bwd_update_graph w' = Some (Graph TapeBackward False)"
        "graph_events (trace w') =
           graph_events (trace w2) @ fwd_capture_events True @ bwd_capture_events False"
      by blast
    from forward_capture_raises [OF gc u b st cap] rest tr
    show "\<exists>w'. forward X a w = Inl (e, w') \<and> dev w' = d2
             \<and> update_graph w' = Some (Graph SimUpdate True)
             \<and> bwd_update_graph w' = Some (Graph TapeBackward False)
             \<and> graph_events (trace w') =
                 graph_events (trace w) @ fwd_capture_events True @ bwd_capture_events False"
      by simp
  }
qed

section \<open>Properties of the matching of names and tensors\<close>

lemma forward_run_eager_tensors:
  assumes "\<not> use_graph_capture (update_params a)"
  shows "forward_run X (make_ctx (a\<lparr>tensors := ts\<rparr>) t) t w = forward_run X (make_ctx a t) t w"
  using assms by (simp add: forward_run_def make_ctx_fields Let_def split_beta)

lemma forward_outputs_raises_tensors:
  "isl (forward_outputs (make_ctx (a\<lparr>tensors := ts\<rparr>) t) w)
     = isl (forward_outputs (make_ctx a t) w)"
  by (simp add: forward_outputs_def make_ctx_fields Let_def split_beta split: sum.splits)

lemma forward_raises_iff:
  "isl (forward X a w0) \<longleftrightarrow>
     (let w1 = sync_if (synchronize (update_params a)) w0;
          tw = (case tape (update_params a) of None \<Rightarrow> new_tape w1 | Some t \<Rightarrow> (t, w1));
          cx = make_ctx a (fst tw)
      in case forward_run X cx (fst tw) (snd tw) of
           Inl ew \<Rightarrow> True
         | Inr w4 \<Rightarrow> isl (forward_outputs cx (sync_if (synchronize (update_params a)) w4)))"
  by (simp add: forward_def forward_start_def Let_def split_beta andthen_def make_ctx_fields
      split: sum.splits)

lemma forward_eager_raises_tensors:
  assumes "\<not> use_graph_capture (update_params a)"
  shows "isl (forward X (a\<lparr>tensors := ts\<rparr>) w) = isl (forward X a w)"
  by (simp add: forward_raises_iff forward_run_eager_tensors [OF assms]
      forward_outputs_raises_tensors Let_def cong: sum.case_cong)

lemma make_ctx_slices:
  "state_tensors (make_ctx a t) = take (length (state_tensors_names a)) (tensors a)"
  "model_tensors (make_ctx a t) =
     take (length (model_tensors_names a)) (drop (length (state_tensors_names a)) (tensors a))"
  "control_tensors (make_ctx a t) =
     take (length (control_tensors_names a))
       (drop (length (state_tensors_names a) + length (model_tensors_names a)) (tensors a))"
  by (simp_all add: make_ctx_def Let_def fwd_args.defs ctx.defs slice_def)

text \<open>
  Claim C6, amended.  \<open>forward\<close> makes no check of the tensors against the declared names
  and raises no error for a mismatch.  It matches them by position alone: of the tensors
  given, the first as many as there are state names are the state tensors, the next as
  many as there are model names the model tensors, the next as many as there are control
  names the control tensors, and all that remain the mesh tensors; when fewer tensors are
  given, the slices are shorter and nothing is said.  In eager mode the tensors given have
  no influence at all on whether \<open>forward\<close> raises.
\<close>

theorem forward_matches_tensors_by_position:
  "(forward X a w = Inr ((outs, cx), w') \<longrightarrow>
        state_tensors cx = take (length (state_tensors_names a)) (tensors a)
      \<and> model_tensors cx =
          take (length (model_tensors_names a)) (drop (length (state_tensors_names a)) (tensors a))
      \<and> control_tensors cx =
          take (length (control_tensors_names a))
            (drop (length (state_tensors_names a) + length (model_tensors_names a)) (tensors a))
      \<and> mesh_tensors cx =
          drop (length (state_tensors_names a) + length (model_tensors_names a)
                + length (control_tensors_names a)) (tensors a)
      \<and> state_tensors cx @ model_tensors cx @ control_tensors cx @ mesh_tensors cx = tensors a)
   \<and> (\<not> use_graph_capture (update_params a) \<longrightarrow>
        isl (forward X (a\<lparr>tensors := ts\<rparr>) w) = isl (forward X a w))"
proof (intro conjI impI)
  assume "forward X a w = Inr ((outs, cx), w')"
  then obtain t where cx: "cx = make_ctx a t" by (blast dest: forward_Inr)
  have app: "take k xs @ take m (drop k xs) @ take n (drop (k + m) xs) @ drop (k + m + n) xs = xs"
    for k m n and xs :: "torch_tensor list"
    by (metis add.commute append_take_drop_id drop_drop)
  show "state_tensors cx = take (length (state_tensors_names a)) (tensors a)"
    and "model_tensors cx =
          take (length (model_tensors_names a)) (drop (length (state_tensors_names a)) (tensors a))"
    and "control_tensors cx =
          take (length (control_tensors_names a))
            (drop (length (state_tensors_names a) + length (model_tensors_names a)) (tensors a))"
    and "mesh_tensors cx =
          drop (length (state_tensors_names a) + length (model_tensors_names a)
                + length (control_tensors_names a)) (tensors a)"
    and "state_tensors cx @ model_tensors cx @ control_tensors cx @ mesh_tensors cx = tensors a"
    by (simp_all add: cx make_ctx_slices make_ctx_fields app)
next
  assume "\<not> use_graph_capture (update_params a)"
  then show "isl (forward X (a\<lparr>tensors := ts\<rparr>) w) = isl (forward X a w)"
    by (rule forward_eager_raises_tensors)
qed


section \<open>The graph life cycle at concrete inputs\<close>

lemmas demo_graph_defs = demo_graph_args_def demo_graph_ctx_def demo_graph_world_def
  demo_graph_world2_def demo_graph_bwd_world_def

lemmas rev_defs = demo_plain_args_def demo_plain_tensors_def demo_plain_adj_def
  demo_plain_graph_args_def demo_plain_graph_ctx_def demo_taped_dev_def
  demo_sim_fails_world_def demo_sim_fails_world2_def demo_reverse_fails_ext_def
  demo_reverse_fails_world_def demo_quiet_ext_def demo_quiet_world_def
  demo_quiet_pass_world_def demo_overflow_ext_def demo_overflow_args_def
  demo_overflow_ctx_def demo_overflow_world_def demo_overflow_adj_def
  demo_overflow_pass_world_def demo_overflow_bwd_world_def

lemma demo_graph_first:
  "forward (demo_ext None) demo_graph_args demo_world =
     Inr (([Owned [Fin 12], Owned [Fin 3], Owned [Fin 9]], demo_graph_ctx), demo_graph_world)"
  by (simp add: demo_graph_defs demo_defs world_defs forward_defs)

lemma demo_graph_second:
  "forward (demo_ext None) demo_graph_args demo_graph_world =
     Inr (([Owned [Fin 12], Owned [Fin 3], Owned [Fin 9]], demo_graph_ctx), demo_graph_world2)"
  by (simp add: demo_graph_defs demo_defs world_defs forward_defs)

lemma demo_graph_backward:
  "backward (demo_ext None) demo_graph_ctx demo_adj demo_graph_world =
     Inr (replicate 9 None @ [Some (Owned [Fin 111]), Some (Owned [Fin 2]), Some (Owned [Fin 3])],
          demo_graph_bwd_world)"
  by (simp add: demo_graph_defs demo_defs world_defs forward_defs backward_defs)

lemma demo_graph_mode:
  "use_graph_capture (update_params demo_graph_args)"
  "use_graph_capture (update_params demo_graph_ctx)"
  "update_graph demo_world = None" "bwd_update_graph demo_world = None"
  by (simp_all add: demo_graph_defs demo_defs make_ctx_fields)

lemma demo_graph_ready:
  "update_graph demo_graph_world = Some (Graph SimUpdate True)"
  "bwd_update_graph demo_graph_world = Some (Graph TapeBackward True)"
  using first_forward_captures [OF demo_graph_mode(1) demo_graph_mode(3) demo_graph_mode(4)
      demo_graph_first]
  by simp_all

text \<open>
  Claim C1 as stated fails on the code at one point: a call of \<open>backward\<close> in
  graph-capture mode does not replay the backward graph only.  On an integrator that
  holds both graphs it first replays the forward graph and then the backward graph.
\<close>

theorem backward_replays_forward_graph_too:
  "use_graph_capture (update_params demo_graph_ctx)
   \<and> update_graph demo_graph_world = Some (Graph SimUpdate True)
   \<and> bwd_update_graph demo_graph_world = Some (Graph TapeBackward True)
   \<and> backward (demo_ext None) demo_graph_ctx demo_adj demo_graph_world =
       Inr (replicate 9 None @ [Some (Owned [Fin 111]), Some (Owned [Fin 2]), Some (Owned [Fin 3])],
            demo_graph_bwd_world)
   \<and> graph_events (trace demo_graph_bwd_world) =
       graph_events (trace demo_graph_world)
       @ [EvLaunch (Graph SimUpdate True), EvLaunch (Graph TapeBackward True)]
   \<and> graph_events (trace demo_graph_bwd_world) \<noteq>
       graph_events (trace demo_graph_world) @ [EvLaunch (Graph TapeBackward True)]"
proof -
  from backward_with_graph_Inr [OF demo_graph_mode(2) demo_graph_backward [unfolded backward_def]]
    demo_graph_ready
  have "graph_step demo_graph_world
          [EvLaunch (Graph SimUpdate True), EvLaunch (Graph TapeBackward True)]
          demo_graph_bwd_world"
    by simp
  then have "graph_events (trace demo_graph_bwd_world) =
       graph_events (trace demo_graph_world)
       @ [EvLaunch (Graph SimUpdate True), EvLaunch (Graph TapeBackward True)]"
    by (simp add: graph_step_def)
  with demo_graph_mode(2) demo_graph_ready demo_graph_backward show ?thesis by simp
qed

theorem graph_capture_lifecycle_witness:
  "use_graph_capture (update_params demo_graph_args)
   \<and> update_graph demo_world = None \<and> bwd_update_graph demo_world = None
   \<and> forward (demo_ext None) demo_graph_args demo_world =
       Inr (([Owned [Fin 12], Owned [Fin 3], Owned [Fin 9]], demo_graph_ctx), demo_graph_world)
   \<and> update_graph demo_graph_world = Some (Graph SimUpdate True)
   \<and> bwd_update_graph demo_graph_world = Some (Graph TapeBackward True)
   \<and> graph_events (trace demo_graph_world) =
       graph_events (trace demo_world) @ fwd_capture_events True @ bwd_capture_events True
       @ [EvLaunch (Graph SimUpdate True)]
   \<and> forward (demo_ext None) demo_graph_args demo_graph_world =
       Inr (([Owned [Fin 12], Owned [Fin 3], Owned [Fin 9]], demo_graph_ctx), demo_graph_world2)
   \<and> graph_step demo_graph_world [EvLaunch (Graph SimUpdate True)] demo_graph_world2
   \<and> use_graph_capture (update_params demo_graph_ctx)
   \<and> backward (demo_ext None) demo_graph_ctx demo_adj demo_graph_world =
       Inr (replicate 9 None @ [Some (Owned [Fin 111]), Some (Owned [Fin 2]), Some (Owned [Fin 3])],
            demo_graph_bwd_world)
   \<and> (\<exists>gf gb. update_graph demo_graph_world = Some gf
         \<and> bwd_update_graph demo_graph_world = Some gb
         \<and> graph_step demo_graph_world [EvLaunch gf, EvLaunch gb] demo_graph_bwd_world)
   \<and> (\<exists>cap. one_capture cap
         \<and> capture_log (trace (run_calls (demo_ext None)
               [Forward demo_graph_args, Backward demo_graph_ctx demo_adj,
                Forward demo_graph_args, Backward demo_graph_ctx demo_adj] demo_world))
           = capture_log (trace demo_world) @ cap
         \<and> (update_graph demo_world \<noteq> None \<longrightarrow> cap = []))"
  using graph_capture_lifecycle
      [where a = demo_graph_args and w = demo_world and X = "demo_ext None"
         and outs = "[Owned [Fin 12], Owned [Fin 3], Owned [Fin 9]]" and cx = demo_graph_ctx
         and w' = demo_graph_world
         and ?a2.0 = demo_graph_args and ?w2.0 = demo_graph_world and g = "Graph SimUpdate True"
         and ?outs2.0 = "[Owned [Fin 12], Owned [Fin 3], Owned [Fin 9]]"
         and ?cx2.0 = demo_graph_ctx and w2' = demo_graph_world2
         and cb = demo_graph_ctx and adj = demo_adj and v = demo_graph_world
         and res = "replicate 9 None @ [Some (Owned [Fin 111]), Some (Owned [Fin 2]),
                                        Some (Owned [Fin 3])]"
         and v' = demo_graph_bwd_world
         and cs = "[Forward demo_graph_args, Backward demo_graph_ctx demo_adj,
                    Forward demo_graph_args, Backward demo_graph_ctx demo_adj]"
         and ?w0.0 = demo_world]
    demo_graph_mode demo_graph_first demo_graph_second demo_graph_backward demo_graph_ready
  by blast

lemma demo_plain_graph_mode:
  "use_graph_capture (update_params demo_plain_graph_args)"
  "use_graph_capture (update_params demo_plain_graph_ctx)"
  "tape (update_params demo_plain_graph_ctx) = Some 0"
  "forward_start demo_plain_graph_args demo_world = (0, demo_world)"
  by (simp_all add: rev_defs demo_defs make_ctx_fields forward_start_def sync_if_def)

lemma demo_sim_fails_first:
  "forward (demo_ext (Some (ExternalError ''cuda''))) demo_plain_graph_args demo_world =
     Inl (ExternalError ''cuda'', demo_sim_fails_world)"
  by (simp add: rev_defs demo_defs world_defs forward_defs)

lemma demo_sim_fails_second:
  "forward (demo_ext (Some (ExternalError ''cuda''))) demo_plain_graph_args demo_sim_fails_world =
     Inr (([Owned [Fin 12], Owned [Fin 3]], demo_plain_graph_ctx), demo_sim_fails_world2)"
  by (simp add: rev_defs demo_defs world_defs forward_defs)

lemma demo_sim_fails_graphs:
  "update_graph demo_sim_fails_world = Some (Graph SimUpdate False)"
  "bwd_update_graph demo_sim_fails_world = None"
  by (simp_all add: rev_defs demo_defs world_defs forward_defs)

lemma demo_reverse_fails_first:
  "forward demo_reverse_fails_ext demo_plain_graph_args demo_world =
     Inl (ExternalError ''cuda'', demo_reverse_fails_world)"
  by (simp add: rev_defs demo_defs world_defs forward_defs)

lemma demo_capture_calls:
  "sim_update (demo_ext (Some (ExternalError ''cuda'')))
     ((update_params demo_plain_graph_args)\<lparr>tape := Some 0\<rparr>) (sim_params demo_plain_graph_args)
     (states_bwd demo_plain_graph_args) (control_bwd demo_plain_graph_args) True (dev demo_world)
   = (Some (ExternalError ''cuda''), demo_taped_dev)"
  "sim_update demo_reverse_fails_ext
     ((update_params demo_plain_graph_args)\<lparr>tape := Some 0\<rparr>) (sim_params demo_plain_graph_args)
     (states_bwd demo_plain_graph_args) (control_bwd demo_plain_graph_args) True (dev demo_world)
   = (None, demo_taped_dev)"
  "tape_backward demo_reverse_fails_ext 0 True demo_taped_dev
   = (Some (ExternalError ''cuda''), demo_taped_dev)"
  by (simp_all add: rev_defs demo_defs)

text \<open>
  Claim C3 as stated fails on the code: when the physics update raises during the first
  capture, the integrator is left holding a forward graph, and the next call of
  \<open>forward\<close> finds it there, captures nothing, replays it and returns.
\<close>

theorem failed_capture_leaves_graph:
  "forward (demo_ext (Some (ExternalError ''cuda''))) demo_plain_graph_args demo_world =
     Inl (ExternalError ''cuda'', demo_sim_fails_world)
   \<and> update_graph demo_sim_fails_world = Some (Graph SimUpdate False)
   \<and> forward (demo_ext (Some (ExternalError ''cuda''))) demo_plain_graph_args
       demo_sim_fails_world =
       Inr (([Owned [Fin 12], Owned [Fin 3]], demo_plain_graph_ctx), demo_sim_fails_world2)
   \<and> graph_events (trace demo_sim_fails_world2) =
       graph_events (trace demo_sim_fails_world) @ [EvLaunch (Graph SimUpdate False)]"
proof -
  from later_forward_replays [OF demo_plain_graph_mode(1) demo_sim_fails_graphs(1)
      demo_sim_fails_second]
  have "graph_events (trace demo_sim_fails_world2) =
       graph_events (trace demo_sim_fails_world) @ [EvLaunch (Graph SimUpdate False)]"
    by (simp add: graph_step_def)
  with demo_sim_fails_first demo_sim_fails_second demo_sim_fails_graphs show ?thesis by simp
qed

theorem failed_capture_raises_with_graph_stored_witness:
  "use_graph_capture (update_params demo_plain_graph_args)
   \<and> update_graph demo_world = None \<and> bwd_update_graph demo_world = None
   \<and> forward_start demo_plain_graph_args demo_world = (0, demo_world)
   \<and> sim_update (demo_ext (Some (ExternalError ''cuda'')))
       ((update_params demo_plain_graph_args)\<lparr>tape := Some 0\<rparr>)
       (sim_params demo_plain_graph_args) (states_bwd demo_plain_graph_args)
       (control_bwd demo_plain_graph_args) True (dev demo_world)
     = (Some (ExternalError ''cuda''), demo_taped_dev)
   \<and> forward (demo_ext (Some (ExternalError ''cuda''))) demo_plain_graph_args demo_world =
       Inl (ExternalError ''cuda'', demo_sim_fails_world)
   \<and> dev demo_sim_fails_world = demo_taped_dev
   \<and> update_graph demo_sim_fails_world = Some (Graph SimUpdate False)
   \<and> bwd_update_graph demo_sim_fails_world = None
   \<and> graph_events (trace demo_sim_fails_world) =
       graph_events (trace demo_world) @ fwd_capture_events False
   \<and> sim_update demo_reverse_fails_ext
       ((update_params demo_plain_graph_args)\<lparr>tape := Some 0\<rparr>)
       (sim_params demo_plain_graph_args) (states_bwd demo_plain_graph_args)
       (control_bwd demo_plain_graph_args) True (dev demo_world)
     = (None, demo_taped_dev)
   \<and> tape_backward demo_reverse_fails_ext 0 True demo_taped_dev
     = (Some (ExternalError ''cuda''), demo_taped_dev)
   \<and> forward demo_reverse_fails_ext demo_plain_graph_args demo_world =
       Inl (ExternalError ''cuda'', demo_reverse_fails_world)
   \<and> dev demo_reverse_fails_world = demo_taped_dev
   \<and> update_graph demo_reverse_fails_world = Some (Graph SimUpdate True)
   \<and> bwd_update_graph demo_reverse_fails_world = Some (Graph TapeBackward False)
   \<and> graph_events (trace demo_reverse_fails_world) =
       graph_events (trace demo_world) @ fwd_capture_events True @ bwd_capture_events False"
proof -
  note at_demo = failed_capture_raises_with_graph_stored
      [OF demo_plain_graph_mode(1) demo_graph_mode(3) demo_graph_mode(4) demo_plain_graph_mode(4)]
  from at_demo [where X = "demo_ext (Some (ExternalError ''cuda''))"
      and e = "ExternalError ''cuda''" and ?d1.0 = demo_taped_dev]
    demo_capture_calls(1) demo_sim_fails_first
  have first: "dev demo_sim_fails_world = demo_taped_dev
     \<and> update_graph demo_sim_fails_world = Some (Graph SimUpdate False)
     \<and> bwd_update_graph demo_sim_fails_world = None
     \<and> graph_events (trace demo_sim_fails_world) =
         graph_events (trace demo_world) @ fwd_capture_events False"
    by auto
  from at_demo [where X = demo_reverse_fails_ext
      and e = "ExternalError ''cuda''" and ?d1.0 = demo_taped_dev and ?d2.0 = demo_taped_dev]
    demo_capture_calls(2,3) demo_reverse_fails_first
  have second: "dev demo_reverse_fails_world = demo_taped_dev
     \<and> update_graph demo_reverse_fails_world = Some (Graph SimUpdate True)
     \<and> bwd_update_graph demo_reverse_fails_world = Some (Graph TapeBackward False)
     \<and> graph_events (trace demo_reverse_fails_world) =
         graph_events (trace demo_world) @ fwd_capture_events True @ bwd_capture_events False"
    by auto
  from first second demo_plain_graph_mode demo_graph_mode demo_capture_calls
    demo_sim_fails_first demo_reverse_fails_first
  show ?thesis by simp
qed

text \<open>
  Claim C6 as stated fails on the code: with two declared names and one tensor, in eager
  mode, \<open>forward\<close> raises nothing; it runs the physics update and returns.
\<close>

theorem mismatch_is_not_an_error:
  "length (state_tensors_names (demo_args False None [] [Owned [Fin 7]]))
     + length (model_tensors_names (demo_args False None [] [Owned [Fin 7]]))
     + length (control_tensors_names (demo_args False None [] [Owned [Fin 7]])) = 2
   \<and> length (tensors (demo_args False None [] [Owned [Fin 7]])) = 1
   \<and> forward (demo_ext None) (demo_args False None [] [Owned [Fin 7]]) demo_world =
       Inr (([View 2, View 3], demo_ctx [] [Owned [Fin 7]]), demo_fwd_world [] [Owned [Fin 7]])
   \<and> trace (demo_fwd_world [] [Owned [Fin 7]]) = [EvRun SimUpdate]"
  by (simp add: demo_defs world_defs forward_defs)

lemma demo_forward_short:
  "forward (demo_ext None) (demo_args False None [] [Owned [Fin 7]]) demo_world =
       Inr (([View 2, View 3], demo_ctx [] [Owned [Fin 7]]), demo_fwd_world [] [Owned [Fin 7]])"
  by (simp add: demo_defs world_defs forward_defs)

theorem forward_matches_tensors_by_position_witness:
  "forward (demo_ext None) (demo_args False None [] [Owned [Fin 7]]) demo_world =
       Inr (([View 2, View 3], demo_ctx [] [Owned [Fin 7]]), demo_fwd_world [] [Owned [Fin 7]])
   \<and> state_tensors (demo_ctx [] [Owned [Fin 7]]) = [Owned [Fin 7]]
   \<and> model_tensors (demo_ctx [] [Owned [Fin 7]]) = []
   \<and> control_tensors (demo_ctx [] [Owned [Fin 7]]) = []
   \<and> mesh_tensors (demo_ctx [] [Owned [Fin 7]]) = []
   \<and> \<not> use_graph_capture (update_params (demo_args False None [] [Owned [Fin 7]]))
   \<and> isl (forward (demo_ext None)
             ((demo_args False None [] [Owned [Fin 7]])\<lparr>tensors := demo_tensors\<rparr>) demo_world)
       = isl (forward (demo_ext None) (demo_args False None [] [Owned [Fin 7]]) demo_world)"
  using forward_matches_tensors_by_position
      [of "demo_ext None" "demo_args False None [] [Owned [Fin 7]]" demo_world
          "[View 2, View 3]" "demo_ctx [] [Owned [Fin 7]]" "demo_fwd_world [] [Owned [Fin 7]]"
          demo_tensors]
    demo_forward_short
  by (simp add: demo_args_def)

end
